theory Spec2Isabelle
  imports Complex_Main "HOL-Library.Multiset"
begin

section \<open>Insider-Tracker: a shallow embedding of \<^verbatim>\<open>src/main.py\<close>\<close>

text \<open>
  The program is one Python class, \<^verbatim>\<open>InsiderTracker\<close>. It downloads an HTML table,
  turns it into a pandas DataFrame, converts three text columns in place, adds two
  derived columns, sorts, caches the result for five minutes and answers queries over
  the cache. The embedding keeps the structure of the source:

  \<^item> a float is the real number it holds, or one of the three special values
    (\<open>pyfloat\<close>); \<^verbatim>\<open>float(str)\<close> rounds the numeral to the nearest binary64 number and
    overflows to infinity (\<open>to_double\<close>), the one division and the one multiplication of
    line 139 are taken on the reals, and the two zeros are one value;
  \<^item> a DataFrame is a list of labelled columns; DataFrames live in a store indexed by
    addresses, because the source mutates them in place and hands references around;
  \<^item> the tracker's attributes, the store and the log are one record (\<open>state\<close>),
    passed through every method and returned updated;
  \<^item> what the outside world answers (clock, HTTP, market-cap provider) and the two pandas
    routines whose code is not part of the repository (\<^verbatim>\<open>pd.to_datetime\<close>, the sort
    behind \<^verbatim>\<open>sort_values\<close>) are fields of a record \<open>env\<close>;
  \<^item> an exception is the value \<open>None\<close> of a step, caught where the source catches it.
\<close>

subsection \<open>Floats\<close>

datatype pyfloat = Fin real | PInf | NInf | NaN

text \<open>IEEE division and multiplication as numpy applies them to a float column:
  no exception, a zero divisor gives an infinity or NaN.\<close>

fun pf_div :: "pyfloat \<Rightarrow> pyfloat \<Rightarrow> pyfloat" where
  "pf_div NaN _ = NaN"
| "pf_div _ NaN = NaN"
| "pf_div (Fin a) (Fin b) =
     (if b = 0 then (if a = 0 then NaN else if 0 < a then PInf else NInf) else Fin (a / b))"
| "pf_div (Fin a) PInf = Fin 0"
| "pf_div (Fin a) NInf = Fin 0"
| "pf_div PInf (Fin b) = (if 0 \<le> b then PInf else NInf)"
| "pf_div NInf (Fin b) = (if 0 \<le> b then NInf else PInf)"
| "pf_div PInf PInf = NaN"
| "pf_div PInf NInf = NaN"
| "pf_div NInf PInf = NaN"
| "pf_div NInf NInf = NaN"

fun pf_mul :: "pyfloat \<Rightarrow> pyfloat \<Rightarrow> pyfloat" where
  "pf_mul NaN _ = NaN"
| "pf_mul _ NaN = NaN"
| "pf_mul (Fin a) (Fin b) = Fin (a * b)"
| "pf_mul (Fin a) PInf = (if a = 0 then NaN else if 0 < a then PInf else NInf)"
| "pf_mul (Fin a) NInf = (if a = 0 then NaN else if 0 < a then NInf else PInf)"
| "pf_mul PInf (Fin b) = (if b = 0 then NaN else if 0 < b then PInf else NInf)"
| "pf_mul NInf (Fin b) = (if b = 0 then NaN else if 0 < b then NInf else PInf)"
| "pf_mul PInf PInf = PInf"
| "pf_mul PInf NInf = NInf"
| "pf_mul NInf PInf = NInf"
| "pf_mul NInf NInf = PInf"

text \<open>\<open>a >= b\<close> on floats: false as soon as one side is NaN.\<close>

fun pf_ge :: "pyfloat \<Rightarrow> pyfloat \<Rightarrow> bool" where
  "pf_ge NaN _ = False"
| "pf_ge _ NaN = False"
| "pf_ge (Fin a) (Fin b) = (b \<le> a)"
| "pf_ge PInf _ = True"
| "pf_ge _ NInf = True"
| "pf_ge (Fin a) PInf = False"
| "pf_ge NInf (Fin b) = False"
| "pf_ge NInf PInf = False"

definition is_finite :: "pyfloat \<Rightarrow> bool" where
  "is_finite x = (case x of Fin _ \<Rightarrow> True | _ \<Rightarrow> False)"

text \<open>
  Rounding a real to binary64, as \<^verbatim>\<open>float(str)\<close> does with the value of a numeral (CPython
  rounds correctly: to the nearest double, a tie to the one with the even significand).
  \<open>bit_length\<close> is Python's \<^verbatim>\<open>int.bit_length\<close>; \<open>ilog2 a\<close> is the exponent \<open>e\<close> with
  \<open>2^e \<le> a < 2^(e+1)\<close> for a positive \<open>a\<close>. A double with exponent \<open>e\<close> is a multiple of
  \<open>2^(e-52)\<close>; below \<open>2^-1022\<close> the doubles are the multiples of \<open>2^-1074\<close>; a number that
  rounds to \<open>2^1024\<close> or more becomes an infinity.
\<close>

function bit_length :: "int \<Rightarrow> nat" where
  "bit_length n = (if n \<le> 0 then 0 else Suc (bit_length (n div 2)))"
  by pat_completeness auto
termination
  by (relation "measure nat") auto

definition ilog2 :: "real \<Rightarrow> int" where
  "ilog2 a = (if 1 \<le> a then int (bit_length \<lfloor>a\<rfloor>) - 1
              else - int (bit_length (\<lceil>1 / a\<rceil> - 1)))"

definition pow2 :: "int \<Rightarrow> real" where
  "pow2 k = (if 0 \<le> k then 2 ^ nat k else 1 / 2 ^ nat (- k))"

definition round_half_even :: "real \<Rightarrow> int" where
  "round_half_even y =
     (if y - of_int \<lfloor>y\<rfloor> < 1 / 2 then \<lfloor>y\<rfloor>
      else if 1 / 2 < y - of_int \<lfloor>y\<rfloor> then \<lfloor>y\<rfloor> + 1
      else if even \<lfloor>y\<rfloor> then \<lfloor>y\<rfloor> else \<lfloor>y\<rfloor> + 1)"

definition overflow :: "real \<Rightarrow> pyfloat" where
  "overflow x = (if 0 < x then PInf else NInf)"

definition to_double :: "real \<Rightarrow> pyfloat" where
  "to_double x =
     (if x = 0 then Fin 0
      else
        (let e = max (ilog2 \<bar>x\<bar>) (- 1022);
             n = round_half_even (\<bar>x\<bar> / pow2 (e - 52))
         in if 1023 < e then overflow x
            else if e = 1023 \<and> 9007199254740992 \<le> n then overflow x
            else Fin (sgn x * (of_int n * pow2 (e - 52)))))"

subsection \<open>Strings: \<^verbatim>\<open>str.strip\<close>, \<^verbatim>\<open>str.replace(c, '')\<close>, \<^verbatim>\<open>float(str)\<close>\<close>

text \<open>Characters stand for code points below 256. These are the ones Python's
  \<^verbatim>\<open>str.isspace\<close> accepts in that range.\<close>

definition is_space :: "char \<Rightarrow> bool" where
  "is_space c = (c \<in> set [CHR 0x09, CHR 0x0A, CHR 0x0B, CHR 0x0C, CHR 0x0D,
                            CHR 0x1C, CHR 0x1D, CHR 0x1E, CHR 0x1F, CHR 0x20,
                            CHR 0x85, CHR 0xA0])"

definition strip :: "string \<Rightarrow> string" where
  "strip s = rev (dropWhile is_space (rev (dropWhile is_space s)))"

text \<open>\<^verbatim>\<open>s.replace(c, '')\<close> for a one-character \<open>c\<close>: every occurrence goes.\<close>

definition str_remove :: "char \<Rightarrow> string \<Rightarrow> string" where
  "str_remove c s = filter (\<lambda>x. x \<noteq> c) s"

definition is_digit :: "char \<Rightarrow> bool" where
  "is_digit c = (c \<in> set ''0123456789'')"

text \<open>The value of a digit is its position in the list of digits.\<close>

definition digit_val :: "char \<Rightarrow> nat" where
  "digit_val c = length (takeWhile (\<lambda>d. d \<noteq> c) ''0123456789'')"

definition dec_int :: "string \<Rightarrow> int" where
  "dec_int ds = foldl (\<lambda>n c. 10 * n + int (digit_val c)) 0 ds"

text \<open>
  The grammar of \<^verbatim>\<open>float(str)\<close> (Python language reference, ASCII digits):
  \<^verbatim>\<open>
  digitpart   ::= digit (["_"] digit)*
  number      ::= [digitpart] "." digitpart | digitpart ["."]
  exponent    ::= ("e" | "E") [sign] digitpart
  floatvalue  ::= [sign] (number [exponent] | "inf" | "infinity" | "nan")
  \<close>
  with surrounding whitespace stripped and the three words read in any letter case.
  \<open>digit_run\<close> reads \<open>(["_"] digit)*\<close> and returns the digits with what follows them.
  \<open>parse_number\<close> gives the value of \<open>number [exponent]\<close> as a real; \<open>py_float\<close> rounds
  it to a double.
\<close>

fun digit_run :: "string \<Rightarrow> string \<times> string" where
  "digit_run [] = ([], [])"
| "digit_run [c] = (if is_digit c then ([c], []) else ([], [c]))"
| "digit_run (c # d # cs) =
     (if is_digit c then (case digit_run (d # cs) of (ds, r) \<Rightarrow> (c # ds, r))
      else if c = CHR ''_'' \<and> is_digit d then (case digit_run cs of (ds, r) \<Rightarrow> (d # ds, r))
      else ([], c # d # cs))"

definition digitpart :: "string \<Rightarrow> string \<times> string" where
  "digitpart s = (case s of [] \<Rightarrow> ([], [])
     | c # cs \<Rightarrow> if is_digit c then (case digit_run cs of (ds, r) \<Rightarrow> (c # ds, r)) else ([], s))"

definition split_sign :: "string \<Rightarrow> bool \<times> string" where
  "split_sign s = (case s of [] \<Rightarrow> (False, [])
     | c # cs \<Rightarrow> if c = CHR ''-'' then (True, cs) else if c = CHR ''+'' then (False, cs)
                else (False, s))"

definition parse_exponent :: "string \<Rightarrow> int option" where
  "parse_exponent s = (case s of [] \<Rightarrow> Some 0
     | c # cs \<Rightarrow>
        if c = CHR ''e'' \<or> c = CHR ''E'' then
          (case split_sign cs of (neg, body) \<Rightarrow>
            (case digitpart body of (ds, r) \<Rightarrow>
              if ds \<noteq> [] \<and> r = [] then Some (if neg then - dec_int ds else dec_int ds)
              else None))
        else None)"

definition scale10 :: "real \<Rightarrow> int \<Rightarrow> real" where
  "scale10 m ex = (if 0 \<le> ex then m * 10 ^ nat ex else m / 10 ^ nat (- ex))"

definition parse_number :: "string \<Rightarrow> real option" where
  "parse_number s =
     (case digitpart s of (ip, r1) \<Rightarrow>
        (case (case r1 of [] \<Rightarrow> (False, [], [])
                 | c # cs \<Rightarrow> if c = CHR ''.'' then (case digitpart cs of (fp, r2) \<Rightarrow> (True, fp, r2))
                            else (False, [], r1)) of
           (dot, fp, r2) \<Rightarrow>
             if ip = [] \<and> fp = [] then None
             else (case parse_exponent r2 of None \<Rightarrow> None
                   | Some ex \<Rightarrow>
                       Some (scale10 (real_of_int (dec_int (ip @ fp)) / 10 ^ length fp) ex))))"

definition to_lower :: "char \<Rightarrow> char" where
  "to_lower c =
     (if c = CHR ''I'' then CHR ''i'' else if c = CHR ''N'' then CHR ''n''
      else if c = CHR ''F'' then CHR ''f'' else if c = CHR ''T'' then CHR ''t''
      else if c = CHR ''Y'' then CHR ''y'' else if c = CHR ''A'' then CHR ''a'' else c)"

definition py_float :: "string \<Rightarrow> pyfloat option" where
  "py_float s0 =
     (case split_sign (strip s0) of (neg, body) \<Rightarrow>
        if map to_lower body = ''inf'' \<or> map to_lower body = ''infinity''
          then Some (if neg then NInf else PInf)
        else if map to_lower body = ''nan'' then Some NaN
        else (case parse_number body of None \<Rightarrow> None
              | Some r \<Rightarrow> Some (to_double (if neg then - r else r))))"

subsection \<open>DataFrames and the store\<close>

text \<open>
  A cell of a column: raw text, a float (the model does not tell the dtypes
  \<^verbatim>\<open>int64\<close> and \<^verbatim>\<open>float64\<close> apart, so the integer 0 the source assigns is \<open>Num (Fin 0)\<close>),
  a timestamp in microseconds, or \<^verbatim>\<open>NaT\<close>. A DataFrame is its labelled columns in
  order, each a pair of its label and its cells; all columns of a DataFrame have the
  same length. Row labels are not modelled.
\<close>

datatype cell = Str string | Num pyfloat | Date int | NaT

type_synonym dataframe = "(string \<times> cell list) list"

type_synonym addr = nat

abbreviation COL_DATE :: string where "COL_DATE \<equiv> ''Date''"
abbreviation COL_VALUE :: string where "COL_VALUE \<equiv> ''Value ($)''"
abbreviation COL_COST :: string where "COL_COST \<equiv> ''Cost''"
abbreviation COL_TICKER :: string where "COL_TICKER \<equiv> ''Ticker''"
abbreviation COL_TRANSACTION :: string where "COL_TRANSACTION \<equiv> ''Transaction''"
abbreviation COL_MARKET_CAP :: string where "COL_MARKET_CAP \<equiv> ''Market Cap''"
abbreviation COL_PERCENT :: string where "COL_PERCENT \<equiv> ''Trade % of Market Cap''"

definition nrows :: "dataframe \<Rightarrow> nat" where
  "nrows df = (case df of [] \<Rightarrow> 0 | c # _ \<Rightarrow> length (snd c))"

text \<open>\<^verbatim>\<open>df.empty\<close>: one of the two axes has length 0.\<close>

definition df_empty :: "dataframe \<Rightarrow> bool" where
  "df_empty df = (nrows df = 0)"

text \<open>\<^verbatim>\<open>df[name]\<close> read as a Series. A missing label raises \<^verbatim>\<open>KeyError\<close>; a label that
  stands twice selects a DataFrame, on which every Series operation the source applies
  next raises. Both are \<open>None\<close>.\<close>

definition get_col :: "string \<Rightarrow> dataframe \<Rightarrow> cell list option" where
  "get_col name df = (case filter (\<lambda>c. fst c = name) df of [c] \<Rightarrow> Some (snd c) | _ \<Rightarrow> None)"

text \<open>\<^verbatim>\<open>df[name] = values\<close>: an existing label keeps its position, a new one is appended.\<close>

definition set_col :: "string \<Rightarrow> cell list \<Rightarrow> dataframe \<Rightarrow> dataframe" where
  "set_col name vs df =
     (if name \<in> set (map fst df) then map (\<lambda>c. if fst c = name then (name, vs) else c) df
      else df @ [(name, vs)])"

fun map_all :: "('a \<Rightarrow> 'b option) \<Rightarrow> 'a list \<Rightarrow> 'b list option" where
  "map_all f [] = Some []"
| "map_all f (x # xs) =
     (case f x of None \<Rightarrow> None
      | Some y \<Rightarrow> (case map_all f xs of None \<Rightarrow> None | Some ys \<Rightarrow> Some (y # ys)))"

definition str_cells :: "cell list \<Rightarrow> string list option" where
  "str_cells = map_all (\<lambda>c. case c of Str s \<Rightarrow> Some s | _ \<Rightarrow> None)"

definition num_cells :: "cell list \<Rightarrow> pyfloat list option" where
  "num_cells = map_all (\<lambda>c. case c of Num v \<Rightarrow> Some v | _ \<Rightarrow> None)"

text \<open>\<^verbatim>\<open>pd.DataFrame(rows, columns=headers)\<close> for rows that all have \<open>length headers\<close> cells.\<close>

definition from_rows :: "string list \<Rightarrow> string list list \<Rightarrow> dataframe" where
  "from_rows headers rows = map (\<lambda>(i, h). (h, map (\<lambda>r. Str (r ! i)) rows)) (enumerate 0 headers)"

text \<open>Positional selection of rows (what a sort does with its indexer), and selection by
  a boolean mask (\<^verbatim>\<open>df[mask]\<close>); both build a new DataFrame.\<close>

definition take_rows :: "nat list \<Rightarrow> dataframe \<Rightarrow> dataframe" where
  "take_rows idx df = map (\<lambda>c. (fst c, map (\<lambda>i. snd c ! i) idx)) df"

definition select_rows :: "bool list \<Rightarrow> dataframe \<Rightarrow> dataframe" where
  "select_rows keep df = map (\<lambda>c. (fst c, map snd (filter fst (zip keep (snd c))))) df"

subsection \<open>The HTML document, as far as the source looks at it\<close>

text \<open>
  A table is the list of its \<^verbatim>\<open>tr\<close> descendants in document order
  (\<^verbatim>\<open>table.find_all('tr')\<close>); a \<^verbatim>\<open>tr\<close> says whether its class is \<^verbatim>\<open>header-row\<close> and lists
  its \<^verbatim>\<open>th\<close>/\<^verbatim>\<open>td\<close> descendants, each with its text nodes (\<^verbatim>\<open>.strings\<close>). A document
  gives the table with id \<^verbatim>\<open>insider-table\<close>, if any, and the tables inside the first
  \<^verbatim>\<open>div\<close> of class \<^verbatim>\<open>content\<close>, if there is such a \<^verbatim>\<open>div\<close>.
\<close>

datatype cell_tag = TH | TD

record tr_elem =
  tr_header_class :: bool
  tr_cells :: "(cell_tag \<times> string list) list"

type_synonym table_elem = "tr_elem list"

record document =
  table_by_id :: "table_elem option"
  content_div :: "table_elem list option"

datatype http_result = HttpError | Page document

text \<open>The provider's answer to one \<^verbatim>\<open>get_company_overview\<close>: an exception, or an overview
  with or without the field \<^verbatim>\<open>MarketCapitalization\<close> (a string, as Alpha Vantage sends it).\<close>

datatype av_response = AvRaise | AvOverview "string option"

subsection \<open>State, environment, log\<close>

datatype log_event =
    Warn_no_api_key
  | Warn_market_cap string
  | Info_using_cache
  | Info_fetching
  | Info_alt_selector
  | Info_success nat
  | Error_fetching
  | Info_market_cap
  | Error_processing
  | Warn_no_filtering

record state =
  cached_data :: "addr option"
  last_fetch_time :: "int option"
  market_cap_cache :: "string \<Rightarrow> pyfloat option"
  av_api_key :: "string option"
  heap :: "addr \<Rightarrow> dataframe"
  next_addr :: addr
  logged :: "log_event list"
  lookups :: "string list"

text \<open>
  \<open>lookups\<close> is not an attribute of the class: it records, in order, the ticker of every
  call of \<^verbatim>\<open>self.fd.get_company_overview\<close>, so that external calls can be counted. The
  provider answers the \<open>k\<close>-th such call of a run with \<open>provider e k ticker\<close>.
  \<open>now_check\<close>, \<open>now_store\<close> and \<open>now_query\<close> are what \<^verbatim>\<open>datetime.now()\<close> returns at
  line 62, at line 113 and in a query (lines 162 and 218), in microseconds.
\<close>

record env =
  now_check :: int
  response :: http_result
  now_store :: int
  now_query :: int
  provider :: "nat \<Rightarrow> string \<Rightarrow> av_response"
  to_datetime :: "cell list \<Rightarrow> int option list option"
  argsort_desc :: "pyfloat list \<Rightarrow> nat list"

definition init_tracker :: "string option \<Rightarrow> state" where
  "init_tracker key =
     \<lparr>cached_data = None, last_fetch_time = None, market_cap_cache = (\<lambda>t. None),
      av_api_key = key, heap = (\<lambda>a. []), next_addr = 0,
      logged = (if key = None \<or> key = Some [] then [Warn_no_api_key] else []),
      lookups = []\<rparr>"

text \<open>\<^verbatim>\<open>if self.av_api_key\<close>: neither \<^verbatim>\<open>None\<close> nor the empty string.\<close>

definition key_ok :: "state \<Rightarrow> bool" where
  "key_ok s = (case av_api_key s of None \<Rightarrow> False | Some k \<Rightarrow> k \<noteq> [])"

definition cache_duration :: int where
  "cache_duration = 5 * 60 * 1000000"

definition day_us :: int where
  "day_us = 24 * 60 * 60 * 1000000"

definition add_log :: "log_event \<Rightarrow> state \<Rightarrow> state" where
  "add_log ev s = s\<lparr>logged := logged s @ [ev]\<rparr>"

definition store :: "addr \<Rightarrow> dataframe \<Rightarrow> state \<Rightarrow> state" where
  "store a df s = s\<lparr>heap := (heap s)(a := df)\<rparr>"

definition alloc :: "dataframe \<Rightarrow> state \<Rightarrow> addr \<times> state" where
  "alloc df s = (next_addr s, s\<lparr>heap := (heap s)(next_addr s := df), next_addr := Suc (next_addr s)\<rparr>)"

text \<open>\<^verbatim>\<open>df.copy()\<close>: a new object with the same contents.\<close>

definition copy_df :: "addr \<Rightarrow> state \<Rightarrow> addr \<times> state" where
  "copy_df a s = alloc (heap s a) s"

subsection \<open>\<^verbatim>\<open>_get_market_cap\<close> (lines 37-56)\<close>

text \<open>Lines 48-49 as a value: what \<^verbatim>\<open>float(overview.get('MarketCapitalization', 0))\<close>
  gives, \<open>None\<close> when the call or \<^verbatim>\<open>float\<close> raises.\<close>

definition overview_value :: "av_response \<Rightarrow> pyfloat option" where
  "overview_value r =
     (case r of AvRaise \<Rightarrow> None
      | AvOverview None \<Rightarrow> Some (Fin 0)
      | AvOverview (Some field) \<Rightarrow> py_float field)"

definition get_market_cap :: "env \<Rightarrow> string \<Rightarrow> state \<Rightarrow> pyfloat \<times> state" where
  "get_market_cap e ticker s =
     (if \<not> key_ok s then (Fin 0, s)
      else (case market_cap_cache s ticker of
        Some v \<Rightarrow> (v, s)
      | None \<Rightarrow>
          (let s1 = s\<lparr>lookups := lookups s @ [ticker]\<rparr> in
           case overview_value (provider e (length (lookups s)) ticker) of
             Some market_cap \<Rightarrow>
               (market_cap, s1\<lparr>market_cap_cache := (market_cap_cache s1)(ticker := Some market_cap)\<rparr>)
           | None \<Rightarrow> (Fin 0, add_log (Warn_market_cap ticker) s1))))"

text \<open>\<^verbatim>\<open>df['Ticker'].apply(self._get_market_cap)\<close>: one call per row, in row order.\<close>

fun apply_market_cap :: "env \<Rightarrow> string list \<Rightarrow> state \<Rightarrow> pyfloat list \<times> state" where
  "apply_market_cap e [] s = ([], s)"
| "apply_market_cap e (t # ts) s =
     (case get_market_cap e t s of (v, s1) \<Rightarrow>
        (case apply_market_cap e ts s1 of (vs, s2) \<Rightarrow> (v # vs, s2)))"

subsection \<open>\<^verbatim>\<open>process_insider_data\<close> (lines 122-151)\<close>

text \<open>
  The three conversions, as functions on the contents of a DataFrame; \<open>None\<close> is the
  exception the statement raises. \<^verbatim>\<open>.str\<close> is modelled on text columns only (on a column
  pandas has already typed as float or datetime it raises \<^verbatim>\<open>AttributeError\<close>), and
  \<^verbatim>\<open>astype(float)\<close> is \<^verbatim>\<open>float\<close> on every cell, failing as a whole when one cell fails.
\<close>

definition conv_date :: "env \<Rightarrow> dataframe \<Rightarrow> dataframe option" where
  "conv_date e df =
     (case get_col COL_DATE df of None \<Rightarrow> None
      | Some col \<Rightarrow>
          (case to_datetime e col of None \<Rightarrow> None
           | Some ds \<Rightarrow>
               if length ds = length col
               then Some (set_col COL_DATE (map (\<lambda>d. case d of None \<Rightarrow> NaT | Some t \<Rightarrow> Date t) ds) df)
               else None))"

definition clean_value :: "string \<Rightarrow> pyfloat option" where
  "clean_value s = py_float (str_remove CHR '','' s)"

definition clean_cost :: "string \<Rightarrow> pyfloat option" where
  "clean_cost s = py_float (str_remove CHR '','' (str_remove CHR ''$'' s))"

definition conv_text :: "string \<Rightarrow> (string \<Rightarrow> pyfloat option) \<Rightarrow> dataframe \<Rightarrow> dataframe option" where
  "conv_text name clean df =
     (case get_col name df of None \<Rightarrow> None
      | Some col \<Rightarrow>
          (case str_cells col of None \<Rightarrow> None
           | Some texts \<Rightarrow>
               (case map_all clean texts of None \<Rightarrow> None
                | Some vs \<Rightarrow> Some (set_col name (map Num vs) df))))"

definition conv_value :: "dataframe \<Rightarrow> dataframe option" where
  "conv_value = conv_text COL_VALUE clean_value"

definition conv_cost :: "dataframe \<Rightarrow> dataframe option" where
  "conv_cost = conv_text COL_COST clean_cost"

text \<open>A statement \<^verbatim>\<open>df[...] = ...\<close> on the object at address \<open>a\<close>: either it raises and
  the object is as before, or the object is overwritten.\<close>

definition in_place :: "(dataframe \<Rightarrow> dataframe option) \<Rightarrow> addr \<Rightarrow> state \<Rightarrow> bool \<times> state" where
  "in_place f a s = (case f (heap s a) of None \<Rightarrow> (False, s) | Some df \<Rightarrow> (True, store a df s))"

text \<open>Line 139: \<^verbatim>\<open>(df['Value ($)'] / df['Market Cap']) * 100\<close>.\<close>

definition percent :: "pyfloat \<Rightarrow> pyfloat \<Rightarrow> pyfloat" where
  "percent v m = pf_mul (pf_div v m) (Fin 100)"

definition percent_col :: "dataframe \<Rightarrow> dataframe option" where
  "percent_col df =
     (case get_col COL_VALUE df of None \<Rightarrow> None
      | Some vc \<Rightarrow>
          (case num_cells vc of None \<Rightarrow> None
           | Some vs \<Rightarrow>
               (case get_col COL_MARKET_CAP df of None \<Rightarrow> None
                | Some mc \<Rightarrow>
                    (case num_cells mc of None \<Rightarrow> None
                     | Some ms \<Rightarrow> Some (set_col COL_PERCENT (map Num (map2 percent vs ms)) df)))))"

definition zero_col :: "string \<Rightarrow> dataframe \<Rightarrow> dataframe option" where
  "zero_col name df = Some (set_col name (replicate (nrows df) (Num (Fin 0))) df)"

text \<open>Lines 136-142. With a key, the tickers are resolved one by one, the market caps are
  written, then the quotient; without one, two zero columns. Tickers are text: a ticker
  column with a cell of another type is modelled as an exception.\<close>

definition add_market_cap :: "env \<Rightarrow> addr \<Rightarrow> state \<Rightarrow> bool \<times> state" where
  "add_market_cap e a s =
     (if key_ok s then
        (let s1 = add_log Info_market_cap s in
         case get_col COL_TICKER (heap s1 a) of None \<Rightarrow> (False, s1)
         | Some col \<Rightarrow>
             (case str_cells col of None \<Rightarrow> (False, s1)
              | Some tickers \<Rightarrow>
                  (case apply_market_cap e tickers s1 of (caps, s2) \<Rightarrow>
                     (let s3 = store a (set_col COL_MARKET_CAP (map Num caps) (heap s2 a)) s2
                      in in_place percent_col a s3))))
      else
        (case in_place (zero_col COL_MARKET_CAP) a s of (ok, s1) \<Rightarrow>
           in_place (zero_col COL_PERCENT) a s1))"

text \<open>
  Line 145, \<^verbatim>\<open>df.sort_values('Value ($)', ascending=False)\<close>: pandas computes an indexer
  from the key column alone and takes the rows at these positions into a new DataFrame.
  The indexer is the environment's; an index out of range is an \<^verbatim>\<open>IndexError\<close>.
\<close>

definition sort_values_desc :: "env \<Rightarrow> string \<Rightarrow> dataframe \<Rightarrow> dataframe option" where
  "sort_values_desc e name df =
     (case get_col name df of None \<Rightarrow> None
      | Some col \<Rightarrow>
          (case num_cells col of None \<Rightarrow> None
           | Some keys \<Rightarrow>
               if list_all (\<lambda>i. i < length keys) (argsort_desc e keys)
               then Some (take_rows (argsort_desc e keys) df) else None))"

text \<open>The body of the \<^verbatim>\<open>try\<close> (lines 128-147); \<open>None\<close>: an exception reached the
  \<^verbatim>\<open>except\<close>.\<close>

definition process_body :: "env \<Rightarrow> addr \<Rightarrow> state \<Rightarrow> addr option \<times> state" where
  "process_body e a s =
     (case in_place (conv_date e) a s of
        (False, s1) \<Rightarrow> (None, s1)
      | (True, s1) \<Rightarrow>
     (case in_place conv_value a s1 of
        (False, s2) \<Rightarrow> (None, s2)
      | (True, s2) \<Rightarrow>
     (case in_place conv_cost a s2 of
        (False, s3) \<Rightarrow> (None, s3)
      | (True, s3) \<Rightarrow>
     (case add_market_cap e a s3 of
        (False, s4) \<Rightarrow> (None, s4)
      | (True, s4) \<Rightarrow>
     (case sort_values_desc e COL_VALUE (heap s4 a) of
        None \<Rightarrow> (None, s4)
      | Some sorted_df \<Rightarrow> (case alloc sorted_df s4 of (r, s5) \<Rightarrow> (Some r, s5)))))))"

definition process_insider_data :: "env \<Rightarrow> addr option \<Rightarrow> state \<Rightarrow> addr option \<times> state" where
  "process_insider_data e dfo s =
     (case dfo of None \<Rightarrow> (None, s)
      | Some a \<Rightarrow>
          if df_empty (heap s a) then (None, s)
          else (case process_body e a s of
                  (None, s1) \<Rightarrow> (None, add_log Error_processing s1)
                | (Some r, s1) \<Rightarrow> (Some r, s1)))"

subsection \<open>Table extraction (lines 73-104)\<close>

definition find_table :: "document \<Rightarrow> state \<Rightarrow> table_elem option \<times> state" where
  "find_table doc s =
     (case table_by_id doc of Some t \<Rightarrow> (Some t, s)
      | None \<Rightarrow>
          (let s1 = add_log Info_alt_selector s in
           case content_div doc of None \<Rightarrow> (None, s1)
           | Some tables \<Rightarrow> if 2 \<le> length tables then (Some (tables ! 1), s1) else (None, s1)))"

definition header_row :: "table_elem \<Rightarrow> tr_elem option" where
  "header_row t =
     (case find tr_header_class t of Some tr \<Rightarrow> Some tr
      | None \<Rightarrow> (case t of [] \<Rightarrow> None | tr # trs \<Rightarrow> Some tr))"

text \<open>\<^verbatim>\<open>th.text.strip()\<close> for a header cell, and line 101 for a data cell.\<close>

definition header_text :: "cell_tag \<times> string list \<Rightarrow> string" where
  "header_text c = strip (concat (snd c))"

definition visible_text :: "cell_tag \<times> string list \<Rightarrow> string" where
  "visible_text c = concat (map strip (filter (\<lambda>x. strip x \<noteq> []) (snd c)))"

definition extract_headers :: "table_elem \<Rightarrow> string list" where
  "extract_headers t = (case header_row t of None \<Rightarrow> [] | Some tr \<Rightarrow> map header_text (tr_cells tr))"

definition row_of :: "tr_elem \<Rightarrow> string list" where
  "row_of tr = map visible_text (filter (\<lambda>c. fst c = TD) (tr_cells tr))"

text \<open>The loop of lines 98-104 over \<^verbatim>\<open>table.find_all('tr')[1:]\<close>.\<close>

fun extract_rows :: "string list \<Rightarrow> tr_elem list \<Rightarrow> string list list" where
  "extract_rows headers [] = []"
| "extract_rows headers (tr # trs) =
     (if row_of tr \<noteq> [] \<and> length (row_of tr) = length headers
      then row_of tr # extract_rows headers trs
      else extract_rows headers trs)"

text \<open>Lines 88-106: headers, rows, and the DataFrame built from them.\<close>

definition table_frame :: "table_elem \<Rightarrow> dataframe" where
  "table_frame t = from_rows (extract_headers t) (extract_rows (extract_headers t) (drop 1 t))"

subsection \<open>\<^verbatim>\<open>fetch_insider_data\<close> (lines 58-120)\<close>

text \<open>Lines 61-62: the address of the cached DataFrame when the cache may be used.\<close>

definition cache_hit :: "env \<Rightarrow> state \<Rightarrow> addr option" where
  "cache_hit e s =
     (case cached_data s of None \<Rightarrow> None
      | Some c \<Rightarrow>
          (case last_fetch_time s of None \<Rightarrow> None
           | Some t \<Rightarrow> if now_check e - t < cache_duration then Some c else None))"

text \<open>The body of the \<^verbatim>\<open>try\<close> (lines 67-116); \<open>None\<close>: an exception reached the
  \<^verbatim>\<open>except\<close>. The last one is the \<^verbatim>\<open>AttributeError\<close> of \<^verbatim>\<open>None.copy()\<close>.\<close>

definition fetch_body :: "env \<Rightarrow> state \<Rightarrow> addr option \<times> state" where
  "fetch_body e s =
     (case response e of
        HttpError \<Rightarrow> (None, s)
      | Page doc \<Rightarrow>
     (case find_table doc s of
        (None, s1) \<Rightarrow> (None, s1)
      | (Some t, s1) \<Rightarrow>
     (case alloc (table_frame t) s1 of
        (a, s2) \<Rightarrow>
     if df_empty (heap s2 a) then (None, s2)
     else
     (case process_insider_data e (Some a) s2 of
        (r, s3) \<Rightarrow>
     (let s4 = add_log (Info_success (nrows (heap s3 a)))
                 (s3\<lparr>cached_data := r, last_fetch_time := Some (now_store e)\<rparr>)
      in case r of None \<Rightarrow> (None, s4)
         | Some c \<Rightarrow> (case copy_df c s4 of (r', s5) \<Rightarrow> (Some r', s5)))))))"

text \<open>Lines 66-120: the \<^verbatim>\<open>try\<close> with its \<^verbatim>\<open>except Exception\<close>.\<close>

definition fetch_network :: "env \<Rightarrow> state \<Rightarrow> addr option \<times> state" where
  "fetch_network e s =
     (case fetch_body e (add_log Info_fetching s) of
        (None, s1) \<Rightarrow> (None, add_log Error_fetching s1)
      | (Some r, s1) \<Rightarrow> (Some r, s1))"

definition fetch_insider_data :: "env \<Rightarrow> bool \<Rightarrow> state \<Rightarrow> addr option \<times> state" where
  "fetch_insider_data e use_cache s =
     (case (if use_cache then cache_hit e s else None) of
        Some c \<Rightarrow> (case copy_df c (add_log Info_using_cache s) of (r, s1) \<Rightarrow> (Some r, s1))
      | None \<Rightarrow> fetch_network e s)"

subsection \<open>Queries (lines 153-230)\<close>

text \<open>A query has no \<^verbatim>\<open>try\<close>: it returns a DataFrame or \<^verbatim>\<open>None\<close>, or it raises.\<close>

datatype 'a outcome = Raised | Returned 'a

text \<open>The first three lines of every query:
  \<^verbatim>\<open>df = self._cached_data; if df is None: df = self.fetch_insider_data()\<close>.\<close>

definition cached_or_fetch :: "env \<Rightarrow> state \<Rightarrow> addr option \<times> state" where
  "cached_or_fetch e s =
     (case cached_data s of Some c \<Rightarrow> (Some c, s) | None \<Rightarrow> fetch_insider_data e True s)"

text \<open>Column tests. Comparing a column of the wrong type raises \<^verbatim>\<open>TypeError\<close>;
  \<^verbatim>\<open>isin\<close> never raises.\<close>

definition date_gt :: "int \<Rightarrow> cell \<Rightarrow> bool option" where
  "date_gt cutoff c = (case c of Date t \<Rightarrow> Some (cutoff < t) | NaT \<Rightarrow> Some False | _ \<Rightarrow> None)"

definition num_ge :: "pyfloat \<Rightarrow> cell \<Rightarrow> bool option" where
  "num_ge m c = (case c of Num v \<Rightarrow> Some (pf_ge v m) | _ \<Rightarrow> None)"

definition isin :: "string list \<Rightarrow> cell \<Rightarrow> bool option" where
  "isin xs c = Some (case c of Str x \<Rightarrow> x \<in> set xs | _ \<Rightarrow> False)"

definition col_test :: "(cell \<Rightarrow> bool option) \<Rightarrow> string \<Rightarrow> dataframe \<Rightarrow> bool list option" where
  "col_test p name df = (case get_col name df of None \<Rightarrow> None | Some cs \<Rightarrow> map_all p cs)"

text \<open>\<^verbatim>\<open>df[test]\<close>: a new DataFrame with the rows that pass.\<close>

definition index_by :: "(dataframe \<Rightarrow> bool list option) \<Rightarrow> addr \<Rightarrow> state \<Rightarrow> (addr \<times> state) option" where
  "index_by t a s =
     (case t (heap s a) of None \<Rightarrow> None | Some keep \<Rightarrow> Some (alloc (select_rows keep (heap s a)) s))"



text \<open>\<^verbatim>\<open>transaction_type\<close> is a string or a list of strings (lines 175-176).\<close>

datatype type_arg = One string | Many "string list"

definition type_list :: "type_arg \<Rightarrow> string list" where
  "type_list t = (case t of One x \<Rightarrow> [x] | Many xs \<Rightarrow> xs)"

definition get_trades_by_type :: "env \<Rightarrow> type_arg \<Rightarrow> state \<Rightarrow> addr option outcome \<times> state" where
  "get_trades_by_type e transaction_type s =
     (case cached_or_fetch e s of
        (None, s1) \<Rightarrow> (Returned None, s1)
      | (Some a, s1) \<Rightarrow>
          if df_empty (heap s1 a) then (Returned None, s1)
          else (case index_by (col_test (isin (type_list transaction_type)) COL_TRANSACTION) a s1 of
                  None \<Rightarrow> (Raised, s1)
                | Some (r, s2) \<Rightarrow> (Returned (Some r), s2)))"

definition get_trades_by_market_cap_percent ::
    "env \<Rightarrow> pyfloat \<Rightarrow> state \<Rightarrow> addr option outcome \<times> state" where
  "get_trades_by_market_cap_percent e min_percent s =
     (if \<not> key_ok s then (Returned None, add_log Warn_no_filtering s)
      else
     (case cached_or_fetch e s of
        (None, s1) \<Rightarrow> (Returned None, s1)
      | (Some a, s1) \<Rightarrow>
          if df_empty (heap s1 a) then (Returned None, s1)
          else (case index_by (col_test (num_ge min_percent) COL_PERCENT) a s1 of
                  None \<Rightarrow> (Raised, s1)
                | Some (r, s2) \<Rightarrow> (Returned (Some r), s2))))"

text \<open>The keys of \<^verbatim>\<open>filters\<close> the source looks at; any other key is ignored.\<close>

record filters =
  min_value :: "pyfloat option"
  max_days :: "int option"
  transaction_types :: "string list option"
  min_market_cap_percent :: "pyfloat option"
  tickers :: "string list option"

text \<open>One \<^verbatim>\<open>if key in filters: df = df[...]\<close>: without the key, \<^verbatim>\<open>df\<close> stays the object
  it was.\<close>

definition filter_if :: "(dataframe \<Rightarrow> bool list option) option \<Rightarrow> addr \<Rightarrow> state \<Rightarrow> (addr \<times> state) option" where
  "filter_if t a s = (case t of None \<Rightarrow> Some (a, s) | Some f \<Rightarrow> index_by f a s)"

definition filter_trades :: "env \<Rightarrow> filters \<Rightarrow> state \<Rightarrow> addr option outcome \<times> state" where
  "filter_trades e f s =
     (case cached_or_fetch e s of
        (None, s0) \<Rightarrow> (Returned None, s0)
      | (Some a0, s0) \<Rightarrow>
     if df_empty (heap s0 a0) then (Returned None, s0)
     else
     (case filter_if (map_option (\<lambda>v. col_test (num_ge v) COL_VALUE) (min_value f)) a0 s0 of
        None \<Rightarrow> (Raised, s0)
      | Some (a1, s1) \<Rightarrow>
     (case filter_if (map_option (\<lambda>d. col_test (date_gt (now_query e - d * day_us)) COL_DATE)
                        (max_days f)) a1 s1 of
        None \<Rightarrow> (Raised, s1)
      | Some (a2, s2) \<Rightarrow>
     (case filter_if (map_option (\<lambda>ts. col_test (isin ts) COL_TRANSACTION) (transaction_types f))
             a2 s2 of
        None \<Rightarrow> (Raised, s2)
      | Some (a3, s3) \<Rightarrow>
     (case filter_if (if key_ok s3
                      then map_option (\<lambda>p. col_test (num_ge p) COL_PERCENT) (min_market_cap_percent f)
                      else None) a3 s3 of
        None \<Rightarrow> (Raised, s3)
      | Some (a4, s4) \<Rightarrow>
     (case filter_if (map_option (\<lambda>ts. col_test (isin ts) COL_TICKER) (tickers f)) a4 s4 of
        None \<Rightarrow> (Raised, s4)
      | Some (a5, s5) \<Rightarrow> (Returned (Some a5), s5)))))))"

subsection \<open>A sort for the examples\<close>

text \<open>
  An insertion sort over positions that puts a position after every earlier one whose key
  is not smaller: the keys descend, NaN keys last, equal keys in their original order.
\<close>

definition desc_le :: "pyfloat \<Rightarrow> pyfloat \<Rightarrow> bool" where
  "desc_le a b = (b = NaN \<or> (a \<noteq> NaN \<and> pf_ge a b))"

fun insert_idx :: "(nat \<Rightarrow> nat \<Rightarrow> bool) \<Rightarrow> nat \<Rightarrow> nat list \<Rightarrow> nat list" where
  "insert_idx stop i [] = [i]"
| "insert_idx stop i (j # js) = (if stop i j then i # j # js else j # insert_idx stop i js)"

definition argsort_stable :: "pyfloat list \<Rightarrow> nat list" where
  "argsort_stable keys =
     foldl (\<lambda>acc i. insert_idx (\<lambda>i j. \<not> desc_le (keys ! j) (keys ! i)) i acc) [] [0..<length keys]"

subsection \<open>Typed columns\<close>

text \<open>\<open>typed_col P name df\<close>: \<open>df\<close> has a column labelled \<open>name\<close>, and every cell under
  that label satisfies \<open>P\<close>.\<close>

definition is_num :: "cell \<Rightarrow> bool" where
  "is_num c = (case c of Num v \<Rightarrow> True | _ \<Rightarrow> False)"

definition is_date :: "cell \<Rightarrow> bool" where
  "is_date c = (case c of Date t \<Rightarrow> True | NaT \<Rightarrow> True | _ \<Rightarrow> False)"

definition typed_col :: "(cell \<Rightarrow> bool) \<Rightarrow> string \<Rightarrow> dataframe \<Rightarrow> bool" where
  "typed_col P name df =
     (name \<in> set (map fst df) \<and> list_all (list_all P) (map snd (filter (\<lambda>c. fst c = name) df)))"

subsection \<open>Decimal numerals\<close>

text \<open>The text of a decimal numeral with integer digits \<open>ds\<close> and fraction digits \<open>fs\<close>,
  and the number it denotes.\<close>

definition decimal_text :: "string \<Rightarrow> string \<Rightarrow> string" where
  "decimal_text ds fs = (if fs = [] then ds else ds @ CHR ''.'' # fs)"

definition decimal_value :: "string \<Rightarrow> string \<Rightarrow> real" where
  "decimal_value ds fs = real_of_int (dec_int (ds @ fs)) / 10 ^ length fs"

subsection \<open>Example inputs\<close>

text \<open>A date parser for the examples: three known dates, the empty string is \<^verbatim>\<open>NaT\<close>,
  typed cells pass, anything else fails.\<close>

definition demo_date :: "cell \<Rightarrow> int option option" where
  "demo_date c =
     (case c of
        Str x \<Rightarrow>
          (if x = ''2024-01-01'' then Some (Some 1704067200000000)
           else if x = ''2024-01-02'' then Some (Some 1704153600000000)
           else if x = ''2024-01-03'' then Some (Some 1704240000000000)
           else if x = [] then Some None else None)
      | Date t \<Rightarrow> Some (Some t)
      | NaT \<Rightarrow> Some None
      | Num v \<Rightarrow> None)"

text \<open>An environment in which the site is down and the provider fails every call.\<close>

definition env_down :: env where
  "env_down =
     \<lparr>now_check = 1704250000000000, response = HttpError, now_store = 1704250000000000,
      now_query = 1704250000000000, provider = (\<lambda>k t. AvRaise),
      to_datetime = map_all demo_date, argsort_desc = argsort_stable\<rparr>"

text \<open>A provider that knows one company, answers a second one without the field and a
  third one with text that is no number, and fails for every other ticker.\<close>

definition demo_provider :: "nat \<Rightarrow> string \<Rightarrow> av_response" where
  "demo_provider k t =
     (if t = ''ACME'' then AvOverview (Some ''2500000000'')
      else if t = ''NOCAP'' then AvOverview None
      else if t = ''ODD'' then AvOverview (Some ''None'')
      else AvRaise)"

definition env_quotes :: env where
  "env_quotes = env_down\<lparr>provider := demo_provider\<rparr>"

text \<open>A page whose table is found by its id: a header row and three trades. The second
  page has the same table with a first trade whose value is not a number.\<close>

definition td_row :: "bool \<Rightarrow> string list \<Rightarrow> tr_elem" where
  "td_row hdr texts = \<lparr>tr_header_class = hdr, tr_cells = map (\<lambda>x. (TD, [x])) texts\<rparr>"

definition demo_header :: tr_elem where
  "demo_header = td_row True [''Ticker'', ''Date'', ''Transaction'', ''Cost'', ''Value ($)'']"

definition demo_table :: table_elem where
  "demo_table =
     [demo_header,
      td_row False [''NOCAP'', ''2024-01-03'', ''Sale'', ''$1,234.50'', ''2,500''],
      td_row False [''ACME'', ''2024-01-02'', ''Buy'', ''$10.50'', ''1,000,000''],
      td_row False [''ZZZ'', ''2024-01-01'', ''Buy'', ''$2.00'', ''5,000'']]"

definition demo_page :: document where
  "demo_page = \<lparr>table_by_id = Some demo_table, content_div = None\<rparr>"

definition broken_table :: table_elem where
  "broken_table = [demo_header, td_row False [''ACME'', ''2024-01-02'', ''Buy'', ''$10.50'', ''n/a'']]"

definition broken_page :: document where
  "broken_page = \<lparr>table_by_id = Some broken_table, content_div = None\<rparr>"

text \<open>The site answers with \<open>demo_page\<close>; with and without working provider.\<close>

definition env_site :: env where
  "env_site = env_down\<lparr>response := Page demo_page\<rparr>"

definition env_live :: env where
  "env_live = env_quotes\<lparr>response := Page demo_page\<rparr>"

text \<open>The tracker after one successful download of \<open>demo_page\<close>, without and with a
  credential.\<close>

definition after_fetch :: state where
  "after_fetch = snd (fetch_insider_data env_site False (init_tracker None))"

definition after_fetch_live :: state where
  "after_fetch_live = snd (fetch_insider_data env_live False (init_tracker (Some ''demo'')))"

text \<open>Four hundred seconds later the site serves \<open>broken_page\<close>.\<close>

definition env_broken :: env where
  "env_broken =
     env_down\<lparr>response := Page broken_page, now_check := 1704250400000000,
       now_store := 1704250400000001\<rparr>"

text \<open>Ten minutes after the download, with the site down.\<close>

definition env_late :: env where
  "env_late = env_down\<lparr>now_check := 1704250600000000, now_query := 1704250600000000\<rparr>"

definition no_filters :: filters where
  "no_filters =
     \<lparr>min_value = None, max_days = None, transaction_types = None,
      min_market_cap_percent = None, tickers = None\<rparr>"

text \<open>A table of ten data rows of which the fourth lacks a cell, and a table of two rows
  without any cell.\<close>

definition ten_rows :: "tr_elem list" where
  "ten_rows =
     [td_row False [''2024-01-01'', ''$1.00'', ''100''],
      td_row False [''2024-01-02'', ''$2.00'', ''200''],
      td_row False [''2024-01-03'', ''$3.00'', ''300''],
      td_row False [''2024-01-01'', ''$4.00''],
      td_row False [''2024-01-02'', ''$5.00'', ''500''],
      td_row False [''2024-01-03'', ''$6.00'', ''600''],
      td_row False [''2024-01-01'', ''$7.00'', ''700''],
      td_row False [''2024-01-02'', ''$8.00'', ''800''],
      td_row False [''2024-01-03'', ''$9.00'', ''900''],
      td_row False [''2024-01-01'', ''$10.00'', ''1,000'']]"

definition env_ten :: env where
  "env_ten =
     env_down\<lparr>response := Page
       \<lparr>table_by_id = Some (td_row True [''Date'', ''Cost'', ''Value ($)''] # ten_rows),
        content_div = None\<rparr>\<rparr>"

definition bare_table :: table_elem where
  "bare_table = [td_row False [], td_row False []]"

text \<open>A tracker without credential that holds one DataFrame, at address 0, as a caller
  of \<^verbatim>\<open>process_insider_data\<close> would pass it.\<close>

definition holding :: "dataframe \<Rightarrow> state" where
  "holding df = snd (alloc df (init_tracker None))"

section \<open>Properties\<close>

subsection \<open>Unfolding the string functions and the tracker\<close>

lemmas tracker_defs =
  init_tracker_def key_ok_def get_market_cap_def overview_value_def add_log_def
  env_down_def env_quotes_def demo_provider_def

text \<open>Three numerals: one that is a double, one that is rounded, and the market cap of
  the examples.\<close>

lemma py_float_example:
  "py_float ''1234.50'' = Some (Fin 1234.5)"
  "py_float ''0.10'' = Some (Fin (3602879701896397 / 36028797018963968))"
  "py_float ''2500000000'' = Some (Fin 2500000000)"
  by code_simp+

subsection \<open>The market-cap cache\<close>

lemma get_market_cap_keeps_entry:
  assumes "market_cap_cache s t = Some v"
  shows "market_cap_cache (snd (get_market_cap e u s)) t = Some v
       \<and> count_list (lookups (snd (get_market_cap e u s))) t = count_list (lookups s) t"
proof (cases "u = t")
  case True
  with assms show ?thesis by (simp add: get_market_cap_def)
next
  case False
  with assms show ?thesis
    by (simp add: get_market_cap_def add_log_def Let_def split: option.split)
qed

lemma apply_market_cap_keeps_entry:
  "market_cap_cache s t = Some v \<Longrightarrow>
     market_cap_cache (snd (apply_market_cap e ts s)) t = Some v
   \<and> count_list (lookups (snd (apply_market_cap e ts s))) t = count_list (lookups s) t"
proof (induction ts arbitrary: s)
  case Nil
  then show ?case by simp
next
  case (Cons u us)
  obtain w s1 where step: "get_market_cap e u s = (w, s1)" by (cases "get_market_cap e u s")
  from get_market_cap_keeps_entry [OF Cons.prems, of e u] step
  have keep: "market_cap_cache s1 t = Some v"
    and cnt: "count_list (lookups s1) t = count_list (lookups s) t" by simp_all
  from Cons.IH [OF keep] cnt step show ?case by (auto split: prod.split)
qed

text \<open>
  C3 (as amended). With a credential configured: a ticker that has an entry in the
  market-cap cache is answered from the cache, and no sequence of later resolutions
  changes the entry or makes another external call for that ticker. A ticker without an
  entry costs exactly one external call; the entry is written if and only if that call
  and the conversion of its field succeed (an absent field counts as 0.0), and after a
  failure the answer is 0 and the cache still has no entry for the ticker.
\<close>

theorem market_cap_cached_only_on_success:
  assumes "key_ok s"
  shows "(market_cap_cache s t = Some v \<longrightarrow>
            get_market_cap e t s = (v, s)
          \<and> market_cap_cache (snd (apply_market_cap e ts s)) t = Some v
          \<and> count_list (lookups (snd (apply_market_cap e ts s))) t = count_list (lookups s) t)
       \<and> (market_cap_cache s t = None \<longrightarrow>
            lookups (snd (get_market_cap e t s)) = lookups s @ [t]
          \<and> fst (get_market_cap e t s) =
              (case overview_value (provider e (length (lookups s)) t) of
                 Some w \<Rightarrow> w | None \<Rightarrow> Fin 0)
          \<and> market_cap_cache (snd (get_market_cap e t s)) t =
              overview_value (provider e (length (lookups s)) t))"
proof (intro conjI impI)
  assume hit: "market_cap_cache s t = Some v"
  from assms hit show "get_market_cap e t s = (v, s)"
    by (simp add: get_market_cap_def)
  from apply_market_cap_keeps_entry [OF hit]
  show "market_cap_cache (snd (apply_market_cap e ts s)) t = Some v"
    and "count_list (lookups (snd (apply_market_cap e ts s))) t = count_list (lookups s) t"
    by simp_all
next
  assume miss: "market_cap_cache s t = None"
  from assms miss show "lookups (snd (get_market_cap e t s)) = lookups s @ [t]"
    by (simp add: get_market_cap_def add_log_def Let_def split: option.split)
  from assms miss show "fst (get_market_cap e t s) =
      (case overview_value (provider e (length (lookups s)) t) of Some w \<Rightarrow> w | None \<Rightarrow> Fin 0)"
    by (simp add: get_market_cap_def Let_def split: option.split)
  from assms miss show "market_cap_cache (snd (get_market_cap e t s)) t =
      overview_value (provider e (length (lookups s)) t)"
    by (simp add: get_market_cap_def add_log_def Let_def split: option.split)
qed

theorem market_cap_cached_only_on_success_witness:
  "key_ok (init_tracker (Some ''demo''))
   \<and> market_cap_cache (init_tracker (Some ''demo'')) ''ACME'' = None
   \<and> lookups (snd (get_market_cap env_quotes ''ACME'' (init_tracker (Some ''demo'')))) = [''ACME'']
   \<and> market_cap_cache (snd (get_market_cap env_quotes ''ACME'' (init_tracker (Some ''demo''))))
        ''ACME'' = Some (Fin 2500000000)
   \<and> get_market_cap env_quotes ''ACME''
        (snd (get_market_cap env_quotes ''ACME'' (init_tracker (Some ''demo''))))
      = (Fin 2500000000, snd (get_market_cap env_quotes ''ACME'' (init_tracker (Some ''demo''))))"
proof -
  let ?s0 = "init_tracker (Some ''demo'')"
  let ?s1 = "snd (get_market_cap env_quotes ''ACME'' ?s0)"
  have k0: "key_ok ?s0" by (simp add: tracker_defs)
  have m0: "market_cap_cache ?s0 ''ACME'' = None" by (simp add: tracker_defs)
  have ov: "overview_value (provider env_quotes (length (lookups ?s0)) ''ACME'')
              = Some (Fin 2500000000)"
    by (simp add: tracker_defs py_float_example)
  note first = market_cap_cached_only_on_success [OF k0, of "''ACME''" "Fin 0" env_quotes "[]"]
  from first m0 ov have l1: "lookups ?s1 = [''ACME'']"
    and c1: "market_cap_cache ?s1 ''ACME'' = Some (Fin 2500000000)"
    by (simp_all add: init_tracker_def)
  have k1: "key_ok ?s1" by (simp add: tracker_defs Let_def py_float_example)
  note second = market_cap_cached_only_on_success
      [OF k1, of "''ACME''" "Fin 2500000000" env_quotes "[]"]
  from second c1 have "get_market_cap env_quotes ''ACME'' ?s1 = (Fin 2500000000, ?s1)"
    by blast
  with k0 m0 l1 c1 show ?thesis by blast
qed

text \<open>C3 as stated fails: while the provider is failing, nothing is stored, and the second
  resolution of the same ticker makes a second external call.\<close>

theorem market_cap_failure_looked_up_again:
  "fst (get_market_cap env_down ''ACME'' (init_tracker (Some ''demo''))) = Fin 0
   \<and> market_cap_cache (snd (get_market_cap env_down ''ACME'' (init_tracker (Some ''demo''))))
        ''ACME'' = None
   \<and> lookups (snd (get_market_cap env_down ''ACME''
        (snd (get_market_cap env_down ''ACME'' (init_tracker (Some ''demo'')))))) = [''ACME'', ''ACME'']"
  by code_simp

subsection \<open>Failures of a download\<close>

text \<open>A download that fails before \<^verbatim>\<open>process_insider_data\<close> is reached (transport
  error, no table) reports \<open>None\<close> and leaves the cache as it was.\<close>

lemma fetch_http_error_keeps_cache:
  assumes "response e = HttpError"
  shows "fst (fetch_network e s) = None
       \<and> cached_data (snd (fetch_network e s)) = cached_data s
       \<and> last_fetch_time (snd (fetch_network e s)) = last_fetch_time s"
  using assms by (simp add: fetch_network_def fetch_body_def add_log_def)

lemma fetch_no_table_keeps_cache:
  assumes "response e = Page doc" and "table_by_id doc = None" and "content_div doc = None"
  shows "fst (fetch_network e s) = None
       \<and> cached_data (snd (fetch_network e s)) = cached_data s
       \<and> last_fetch_time (snd (fetch_network e s)) = last_fetch_time s"
  using assms by (simp add: fetch_network_def fetch_body_def find_table_def add_log_def)

text \<open>
  C1 (the code departs from the claim). The tracker holds a dataset downloaded at
  1704250000000000; 400 seconds later the site serves a table whose only row has the value
  \<^verbatim>\<open>n/a\<close>. \<^verbatim>\<open>process_insider_data\<close> catches the \<^verbatim>\<open>ValueError\<close> and returns \<^verbatim>\<open>None\<close>,
  which lines 112-113 store as the cached dataset together with a new timestamp, before
  \<^verbatim>\<open>None.copy()\<close> raises. The call returns \<^verbatim>\<open>None\<close>, and the previous dataset is gone.
\<close>

theorem fetch_processing_failure_clears_cache:
  "cached_data after_fetch = Some 1
   \<and> last_fetch_time after_fetch = Some 1704250000000000
   \<and> fst (fetch_insider_data env_broken True after_fetch) = None
   \<and> cached_data (snd (fetch_insider_data env_broken True after_fetch)) = None
   \<and> last_fetch_time (snd (fetch_insider_data env_broken True after_fetch))
        = Some 1704250400000001"
  by code_simp

subsection \<open>The percentage of the market cap\<close>

lemma percent_nonzero_cap:
  "m \<noteq> 0 \<Longrightarrow> percent (Fin v) (Fin m) = Fin (v / m * 100)"
  by (simp add: percent_def)

lemma percent_zero_cap:
  "percent (Fin v) (Fin 0) = (if v = 0 then NaN else if 0 < v then PInf else NInf)"
  by (simp add: percent_def)

text \<open>
  C2 (the code departs from the claim). With a credential, the download of \<open>demo_page\<close>
  resolves ACME to 2500000000, NOCAP to 0.0 (no field) and ZZZ to 0 (lookup failed). Line
  139 divides by these: the cached percentages of NOCAP and ZZZ are infinite, not 0.0, and
  a zero value over a zero cap is NaN.
\<close>

theorem zero_market_cap_gives_infinite_percent:
  "get_col COL_TICKER (heap after_fetch_live 1) = Some [Str ''ACME'', Str ''ZZZ'', Str ''NOCAP'']
   \<and> get_col COL_MARKET_CAP (heap after_fetch_live 1)
        = Some [Num (Fin 2500000000), Num (Fin 0), Num (Fin 0)]
   \<and> get_col COL_PERCENT (heap after_fetch_live 1)
        = Some [Num (Fin (1 / 25)), Num PInf, Num PInf]
   \<and> cached_data after_fetch_live = Some 1
   \<and> percent (Fin 0) (Fin 0) = NaN"
  by code_simp

subsection \<open>The query for trades by market-cap percentage without a credential\<close>

text \<open>
  C8 (as amended). Without a credential \<^verbatim>\<open>get_trades_by_market_cap_percent\<close> logs one
  warning and returns \<^verbatim>\<open>None\<close>, the value every query returns when no data could be
  fetched, whatever the cache holds; it neither reads nor changes the cache.
\<close>

theorem market_cap_query_without_key:
  "\<not> key_ok s \<Longrightarrow>
     get_trades_by_market_cap_percent e min_percent s
       = (Returned None, s\<lparr>logged := logged s @ [Warn_no_filtering]\<rparr>)"
  by (simp add: get_trades_by_market_cap_percent_def add_log_def)

theorem market_cap_query_without_key_witness:
  "\<not> key_ok after_fetch
   \<and> cached_data after_fetch = Some 1
   \<and> get_trades_by_market_cap_percent env_late (Fin (1 / 10)) after_fetch
       = (Returned None, after_fetch\<lparr>logged := logged after_fetch @ [Warn_no_filtering]\<rparr>)"
proof -
  have k: "\<not> key_ok after_fetch" by code_simp
  have c: "cached_data after_fetch = Some 1" by code_simp
  from k c market_cap_query_without_key [OF k, of env_late "Fin (1 / 10)"]
  show ?thesis by blast
qed

text \<open>C8 as stated fails: the result is no DataFrame at all. It is the value that
  \<^verbatim>\<open>get_trades_by_type\<close> returns when the site is down and nothing is cached.\<close>

theorem market_cap_query_without_key_is_no_dataset:
  "fst (get_trades_by_market_cap_percent env_late (Fin (1 / 10)) after_fetch) = Returned None
   \<and> fst (get_trades_by_type env_down (One ''Buy'') (init_tracker None)) = Returned None"
  by code_simp

subsection \<open>Currency text\<close>

lemma digit_facts:
  assumes "is_digit c"
  shows "\<not> is_space c" "c \<noteq> CHR ''_''" "c \<noteq> CHR ''.''" "c \<noteq> CHR ''-''" "c \<noteq> CHR ''+''"
    "to_lower c = c" "c \<noteq> CHR ''i''" "c \<noteq> CHR ''n''"
  using assms by (auto simp: is_digit_def is_space_def to_lower_def)

lemma digit_run_stop:
  assumes "\<not> is_digit c" and "c \<noteq> CHR ''_''"
  shows "digit_run (c # cs) = ([], c # cs)"
  using assms by (cases cs) simp_all

lemma digit_run_digits:
  assumes "list_all is_digit ds" and "r = [] \<or> (\<not> is_digit (hd r) \<and> hd r \<noteq> CHR ''_'')"
  shows "digit_run (ds @ r) = (ds, r)"
  using assms
proof (induction ds)
  case Nil
  then show ?case by (cases r) (simp_all add: digit_run_stop)
next
  case (Cons d ds)
  then have ih: "digit_run (ds @ r) = (ds, r)" and d: "is_digit d" by simp_all
  show ?case
  proof (cases "ds @ r")
    case Nil
    with d show ?thesis by simp
  next
    case (Cons x xs)
    with ih d show ?thesis by simp
  qed
qed

lemma digitpart_digits:
  assumes "list_all is_digit ds" and "r = [] \<or> (\<not> is_digit (hd r) \<and> hd r \<noteq> CHR ''_'')"
  shows "digitpart (ds @ r) = (ds, r)"
proof (cases ds)
  case Nil
  with assms(2) show ?thesis by (cases r) (auto simp: digitpart_def)
next
  case (Cons d ds')
  with assms(1) have "is_digit d" "list_all is_digit ds'" by simp_all
  with digit_run_digits [OF \<open>list_all is_digit ds'\<close> assms(2)] Cons
  show ?thesis by (simp add: digitpart_def)
qed

lemma parse_number_decimal:
  assumes "ds \<noteq> []" and "list_all is_digit ds" and "list_all is_digit fs"
  shows "parse_number (decimal_text ds fs) = Some (decimal_value ds fs)"
proof (cases "fs = []")
  case True
  from digitpart_digits [OF assms(2), of "[]"] have "digitpart ds = (ds, [])" by simp
  with True assms(1) show ?thesis
    by (simp add: parse_number_def decimal_text_def decimal_value_def parse_exponent_def scale10_def)
next
  case False
  have 1: "digitpart (ds @ CHR ''.'' # fs) = (ds, CHR ''.'' # fs)"
    by (rule digitpart_digits [OF assms(2)]) (simp add: is_digit_def)
  from digitpart_digits [OF assms(3), of "[]"] have 2: "digitpart fs = (fs, [])" by simp
  from False assms(1) 1 2 show ?thesis
    by (simp add: parse_number_def decimal_text_def decimal_value_def parse_exponent_def scale10_def)
qed

lemma strip_id:
  assumes "s \<noteq> []" and "\<not> is_space (hd s)" and "\<not> is_space (last s)"
  shows "strip s = s"
proof -
  from assms(1,2) have 1: "dropWhile is_space s = s" by (cases s) simp_all
  from assms(1,3) have 2: "dropWhile is_space (rev s) = rev s"
    by (cases "rev s") (simp_all add: hd_rev [symmetric] last_rev)
  from 1 2 show ?thesis by (simp add: strip_def)
qed

lemma decimal_text_ends:
  assumes "ds \<noteq> []" and "list_all is_digit ds" and "list_all is_digit fs"
  shows "decimal_text ds fs \<noteq> []" "is_digit (hd (decimal_text ds fs))"
    "is_digit (last (decimal_text ds fs))"
  using assms by (auto simp: decimal_text_def list_all_iff)

lemma py_float_decimal:
  assumes "ds \<noteq> []" and "list_all is_digit ds" and "list_all is_digit fs"
  shows "py_float (decimal_text ds fs) = Some (to_double (decimal_value ds fs))"
proof -
  let ?t = "decimal_text ds fs"
  note e = decimal_text_ends [OF assms]
  from e have st: "strip ?t = ?t" by (intro strip_id) (simp_all add: digit_facts)
  from e obtain c cs where t: "?t = c # cs" and c: "is_digit c" by (cases ?t) auto
  from c t have sg: "split_sign ?t = (False, ?t)" by (simp add: split_sign_def digit_facts)
  from c t have w: "map to_lower ?t \<noteq> ''inf''" "map to_lower ?t \<noteq> ''infinity''"
     "map to_lower ?t \<noteq> ''nan''" by (auto simp: digit_facts)
  from st sg w parse_number_decimal [OF assms] show ?thesis by (simp add: py_float_def)
qed

lemma str_cells_Str: "str_cells (map Str ts) = Some ts"
  by (induction ts) (simp_all add: str_cells_def)

text \<open>
  C5 (as amended). Let \<open>ds\<close> (not empty) and \<open>fs\<close> be digits. A cost cell that reads as the
  decimal numeral \<open>ds.fs\<close> once every \<^verbatim>\<open>$\<close> and every comma is removed is parsed as a
  float: it converts to the double nearest to the numeral. A value cell converts to it if it
  reads as the numeral once every comma is removed (a \<^verbatim>\<open>$\<close> is not removed from a value
  cell). A text column whose cells all convert is replaced, in its place, by the column of
  these floats. The cost cell \<^verbatim>\<open>$1,234.50\<close> and the value cell \<^verbatim>\<open>1,234.50\<close> convert to
  exactly 1234.5.
\<close>

theorem currency_text_to_float:
  assumes "ds \<noteq> []" and "list_all is_digit ds" and "list_all is_digit fs"
  shows "(str_remove CHR '','' (str_remove CHR ''$'' c) = decimal_text ds fs \<longrightarrow>
            clean_cost c = Some (to_double (decimal_value ds fs)))
       \<and> (str_remove CHR '','' v = decimal_text ds fs \<longrightarrow>
            clean_value v = Some (to_double (decimal_value ds fs)))
       \<and> (get_col COL_COST df = Some (map Str ts) \<and> map_all clean_cost ts = Some xs \<longrightarrow>
            conv_cost df = Some (set_col COL_COST (map Num xs) df))
       \<and> (get_col COL_VALUE df = Some (map Str ts) \<and> map_all clean_value ts = Some xs \<longrightarrow>
            conv_value df = Some (set_col COL_VALUE (map Num xs) df))
       \<and> clean_cost ''$1,234.50'' = Some (Fin 1234.5)
       \<and> clean_value ''1,234.50'' = Some (Fin 1234.5)"
proof -
  from py_float_decimal [OF assms]
  have general:
    "(str_remove CHR '','' (str_remove CHR ''$'' c) = decimal_text ds fs \<longrightarrow>
        clean_cost c = Some (to_double (decimal_value ds fs)))
     \<and> (str_remove CHR '','' v = decimal_text ds fs \<longrightarrow>
        clean_value v = Some (to_double (decimal_value ds fs)))
     \<and> (get_col COL_COST df = Some (map Str ts) \<and> map_all clean_cost ts = Some xs \<longrightarrow>
        conv_cost df = Some (set_col COL_COST (map Num xs) df))
     \<and> (get_col COL_VALUE df = Some (map Str ts) \<and> map_all clean_value ts = Some xs \<longrightarrow>
        conv_value df = Some (set_col COL_VALUE (map Num xs) df))"
    by (simp add: clean_cost_def clean_value_def conv_cost_def conv_value_def conv_text_def
        str_cells_Str)
  have cost: "clean_cost ''$1,234.50'' = Some (Fin 1234.5)" by code_simp
  have val: "clean_value ''1,234.50'' = Some (Fin 1234.5)" by code_simp
  from general cost val show ?thesis by blast
qed

theorem currency_text_to_float_witness:
  "clean_cost ''$1,234.50'' = Some (Fin 1234.5)
   \<and> clean_value ''1,234.50'' = Some (Fin 1234.5)
   \<and> conv_cost [(COL_COST, [Str ''$1,234.50''])] = Some [(COL_COST, [Num (Fin 1234.5)])]
   \<and> conv_value [(COL_VALUE, [Str ''1,234.50''])] = Some [(COL_VALUE, [Num (Fin 1234.5)])]"
proof -
  have d: "''1234'' \<noteq> []" "list_all is_digit ''1234''" "list_all is_digit ''50''"
    by (simp_all add: is_digit_def)
  have t: "str_remove CHR '','' (str_remove CHR ''$'' ''$1,234.50'') = decimal_text ''1234'' ''50''"
    "str_remove CHR '','' ''1,234.50'' = decimal_text ''1234'' ''50''"
    by (simp_all add: str_remove_def decimal_text_def)
  have v: "to_double (decimal_value ''1234'' ''50'') = Fin 1234.5"
    by code_simp
  have g: "get_col COL_COST [(COL_COST, [Str ''$1,234.50''])] = Some (map Str [''$1,234.50''])"
    "get_col COL_VALUE [(COL_VALUE, [Str ''1,234.50''])] = Some (map Str [''1,234.50''])"
    by (simp_all add: get_col_def)
  note cost = currency_text_to_float
    [OF d, of "''$1,234.50''" "''1,234.50''" "[(COL_COST, [Str ''$1,234.50''])]"
       "[''$1,234.50'']" "[Fin 1234.5]"]
  note val = currency_text_to_float
    [OF d, of "''$1,234.50''" "''1,234.50''" "[(COL_VALUE, [Str ''1,234.50''])]"
       "[''1,234.50'']" "[Fin 1234.5]"]
  from cost t v have c1: "clean_cost ''$1,234.50'' = Some (Fin 1234.5)" by simp
  from cost t v have c2: "clean_value ''1,234.50'' = Some (Fin 1234.5)" by simp
  from cost g c1 have c3:
    "conv_cost [(COL_COST, [Str ''$1,234.50''])] = Some [(COL_COST, [Num (Fin 1234.5)])]"
    by (simp add: set_col_def)
  from val g c2 have c4:
    "conv_value [(COL_VALUE, [Str ''1,234.50''])] = Some [(COL_VALUE, [Num (Fin 1234.5)])]"
    by (simp add: set_col_def)
  from c1 c2 c3 c4 show ?thesis by blast
qed

text \<open>C5 as stated fails: line 132 removes only commas from the value column, so a value
  cell with a currency symbol is no float and the conversion of the column raises.\<close>

theorem value_cell_with_currency_symbol_fails:
  "clean_value ''$1,234.50'' = None
   \<and> conv_value [(COL_VALUE, [Str ''$1,234.50''])] = None"
  by code_simp

subsection \<open>Rows of the table\<close>

lemma extract_rows_filter:
  "extract_rows hs trs = filter (\<lambda>r. r \<noteq> [] \<and> length r = length hs) (map row_of trs)"
  by (induction trs) simp_all

lemma extract_rows_append:
  "extract_rows hs (xs @ ys) = extract_rows hs xs @ extract_rows hs ys"
  by (simp add: extract_rows_filter)

text \<open>
  C9 (as amended). The rows taken from the table are exactly the rows that have at least
  one \<^verbatim>\<open>td\<close> cell and as many \<^verbatim>\<open>td\<close> cells as there are header cells, in their order and
  with their text unchanged. A row that fails this test is left out and the rows before
  and after it are taken as if it were not there; extraction has no error to report.
\<close>

theorem rows_kept_iff_nonempty_and_matching:
  "extract_rows hs trs = filter (\<lambda>r. r \<noteq> [] \<and> length r = length hs) (map row_of trs)
   \<and> (\<not> (row_of tr \<noteq> [] \<and> length (row_of tr) = length hs) \<longrightarrow>
        extract_rows hs (before @ tr # after) = extract_rows hs before @ extract_rows hs after)
   \<and> (row_of tr \<noteq> [] \<and> length (row_of tr) = length hs \<longrightarrow>
        extract_rows hs (before @ tr # after)
          = extract_rows hs before @ row_of tr # extract_rows hs after)"
  by (simp add: extract_rows_append) (simp add: extract_rows_filter)

theorem rows_kept_iff_nonempty_and_matching_witness:
  "\<not> (row_of (ten_rows ! 3) \<noteq> [] \<and> length (row_of (ten_rows ! 3)) = length [''Date'', ''Cost'', ''Value ($)''])
   \<and> extract_rows [''Date'', ''Cost'', ''Value ($)''] ten_rows
       = extract_rows [''Date'', ''Cost'', ''Value ($)''] (take 3 ten_rows)
         @ extract_rows [''Date'', ''Cost'', ''Value ($)''] (drop 4 ten_rows)
   \<and> length ten_rows = 10
   \<and> length (extract_rows [''Date'', ''Cost'', ''Value ($)''] ten_rows) = 9
   \<and> cached_data (snd (fetch_insider_data env_ten False (init_tracker None))) = Some 1
   \<and> nrows (heap (snd (fetch_insider_data env_ten False (init_tracker None))) 1) = 9"
proof -
  let ?hs = "[''Date'', ''Cost'', ''Value ($)'']"
  have bad: "\<not> (row_of (ten_rows ! 3) \<noteq> [] \<and> length (row_of (ten_rows ! 3)) = length ?hs)"
    by code_simp
  have split: "ten_rows = take 3 ten_rows @ (ten_rows ! 3) # drop 4 ten_rows"
    by code_simp
  from rows_kept_iff_nonempty_and_matching
    [of ?hs ten_rows "ten_rows ! 3" "take 3 ten_rows" "drop 4 ten_rows"] bad
  have "extract_rows ?hs (take 3 ten_rows @ (ten_rows ! 3) # drop 4 ten_rows)
      = extract_rows ?hs (take 3 ten_rows) @ extract_rows ?hs (drop 4 ten_rows)"
    by blast
  then have parts: "extract_rows ?hs ten_rows
      = extract_rows ?hs (take 3 ten_rows) @ extract_rows ?hs (drop 4 ten_rows)"
    by (simp only: split [symmetric])
  have n: "length ten_rows = 10" "length (extract_rows ?hs ten_rows) = 9"
    by code_simp+
  have f: "cached_data (snd (fetch_insider_data env_ten False (init_tracker None))) = Some 1"
    "nrows (heap (snd (fetch_insider_data env_ten False (init_tracker None))) 1) = 9"
    by code_simp+
  from bad parts n f show ?thesis by blast
qed

text \<open>C9 as stated fails where the header row has no cell: a row without cells has the
  header's cell count, and line 103 still leaves it out.\<close>

theorem empty_row_dropped_though_counts_match:
  "length (row_of (bare_table ! 1)) = length (extract_headers bare_table)
   \<and> extract_rows (extract_headers bare_table) (drop 1 bare_table) = []"
  by code_simp

subsection \<open>Columns of a DataFrame\<close>

lemma labels_replace:
  "map fst (map (\<lambda>c. if fst c = name then (name, vs) else c) df) = map fst df"
  by (induction df) simp_all

lemma filter_replace_other:
  "other \<noteq> name \<Longrightarrow>
   filter (\<lambda>c. fst c = name) (map (\<lambda>c. if fst c = other then (other, vs) else c) df)
     = filter (\<lambda>c. fst c = name) df"
  by (induction df) simp_all

lemma filter_replace_same:
  "filter (\<lambda>c. fst c = name) (map (\<lambda>c. if fst c = name then (name, vs) else c) df)
     = map (\<lambda>c. (name, vs)) (filter (\<lambda>c. fst c = name) df)"
  by (induction df) simp_all

lemma filter_absent:
  "name \<notin> set (map fst df) \<Longrightarrow> filter (\<lambda>c. fst c = name) df = []"
  by (induction df) auto

lemma typed_col_set_same:
  assumes "list_all P vs"
  shows "typed_col P name (set_col name vs df)"
proof (cases "name \<in> set (map fst df)")
  case True
  have "list_all (list_all P) (map snd (map (\<lambda>c. (name, vs)) (filter (\<lambda>c. fst c = name) df)))"
    using assms by (simp add: list_all_iff)
  with True show ?thesis
    unfolding typed_col_def set_col_def by (simp only: if_True labels_replace filter_replace_same)
next
  case False
  with assms filter_absent [OF False] show ?thesis by (simp add: typed_col_def set_col_def)
qed

lemma typed_col_set_other:
  assumes "other \<noteq> name"
  shows "typed_col P name (set_col other vs df) = typed_col P name df"
proof (cases "other \<in> set (map fst df)")
  case True
  then show ?thesis
    unfolding typed_col_def set_col_def
    by (simp only: if_True labels_replace filter_replace_other [OF assms])
next
  case False
  with assms show ?thesis by (auto simp: typed_col_def set_col_def)
qed

lemma get_col_set_other:
  assumes "other \<noteq> name"
  shows "get_col name (set_col other vs df) = get_col name df"
proof (cases "other \<in> set (map fst df)")
  case True
  then show ?thesis
    unfolding get_col_def set_col_def by (simp only: if_True filter_replace_other [OF assms])
next
  case False
  with assms show ?thesis by (simp add: get_col_def set_col_def)
qed

lemma get_col_single:
  assumes "get_col name df = Some cs"
  shows "\<exists>c. filter (\<lambda>c. fst c = name) df = [c] \<and> snd c = cs"
  using assms by (auto simp: get_col_def split: list.splits)

lemma get_col_mem:
  assumes "get_col name df = Some cs"
  shows "name \<in> set (map fst df)"
proof -
  from get_col_single [OF assms] obtain c where "filter (\<lambda>c. fst c = name) df = [c]" by blast
  then have "c \<in> set (filter (\<lambda>c. fst c = name) df)" by simp
  then show ?thesis by auto
qed

lemma get_col_set_same:
  assumes "get_col name df = Some cs"
  shows "get_col name (set_col name vs df) = Some vs"
proof -
  from get_col_single [OF assms] obtain c where c: "filter (\<lambda>c. fst c = name) df = [c]" by blast
  have "get_col name (map (\<lambda>c. if fst c = name then (name, vs) else c) df) = Some vs"
    unfolding get_col_def by (simp only: filter_replace_same c) simp
  with get_col_mem [OF assms] show ?thesis by (simp add: set_col_def)
qed

lemma num_cells_Num: "num_cells (map Num vs) = Some vs"
  by (induction vs) (simp_all add: num_cells_def)

lemma filter_take_rows:
  "filter (\<lambda>c. fst c = name) (map (\<lambda>c. (fst c, map (\<lambda>i. snd c ! i) idx)) df)
     = map (\<lambda>c. (fst c, map (\<lambda>i. snd c ! i) idx)) (filter (\<lambda>c. fst c = name) df)"
  by (induction df) simp_all

lemma get_col_take_rows:
  assumes "get_col name df = Some cs"
  shows "get_col name (take_rows idx df) = Some (map (\<lambda>i. cs ! i) idx)"
proof -
  from get_col_single [OF assms] obtain c
    where c: "filter (\<lambda>c. fst c = name) df = [c]" "snd c = cs" by blast
  show ?thesis
    unfolding get_col_def take_rows_def by (simp only: filter_take_rows c) (simp add: c)
qed

subsection \<open>What processing does to the store\<close>

lemma store_fields:
  "heap (store a df s) = (heap s)(a := df)" "next_addr (store a df s) = next_addr s"
  "cached_data (store a df s) = cached_data s" "last_fetch_time (store a df s) = last_fetch_time s"
  "av_api_key (store a df s) = av_api_key s" "logged (store a df s) = logged s"
  "key_ok (store a df s) = key_ok s"
  by (simp_all add: store_def key_ok_def)

lemma add_log_fields:
  "heap (add_log ev s) = heap s" "next_addr (add_log ev s) = next_addr s"
  "cached_data (add_log ev s) = cached_data s" "last_fetch_time (add_log ev s) = last_fetch_time s"
  "av_api_key (add_log ev s) = av_api_key s" "logged (add_log ev s) = logged s @ [ev]"
  "key_ok (add_log ev s) = key_ok s"
  by (simp_all add: add_log_def key_ok_def)

lemma get_market_cap_frame:
  "heap (snd (get_market_cap e t s)) = heap s"
  "next_addr (snd (get_market_cap e t s)) = next_addr s"
  "cached_data (snd (get_market_cap e t s)) = cached_data s"
  "last_fetch_time (snd (get_market_cap e t s)) = last_fetch_time s"
  by (simp_all add: get_market_cap_def add_log_def Let_def split: option.split)

lemma apply_market_cap_frame:
  "heap (snd (apply_market_cap e ts s)) = heap s
   \<and> next_addr (snd (apply_market_cap e ts s)) = next_addr s
   \<and> cached_data (snd (apply_market_cap e ts s)) = cached_data s
   \<and> last_fetch_time (snd (apply_market_cap e ts s)) = last_fetch_time s"
proof (induction ts arbitrary: s)
  case Nil
  show ?case by simp
next
  case (Cons t ts)
  obtain v s1 where 1: "get_market_cap e t s = (v, s1)" by (cases "get_market_cap e t s")
  obtain vs s2 where 2: "apply_market_cap e ts s1 = (vs, s2)" by (cases "apply_market_cap e ts s1")
  from get_market_cap_frame [of e t s] 1 Cons.IH [of s1] 2 show ?case by simp
qed

lemma add_market_cap_ok:
  assumes "add_market_cap e a s = (True, s1)"
  shows "next_addr s1 = next_addr s"
    and "\<exists>caps pcs. heap s1 = (heap s)(a := set_col COL_PERCENT (map Num pcs)
                                  (set_col COL_MARKET_CAP (map Num caps) (heap s a)))"
proof -
  show "next_addr s1 = next_addr s"
  proof (cases "key_ok s")
    case True
    with assms show ?thesis
      using apply_market_cap_frame
      by (auto simp: add_market_cap_def Let_def in_place_def store_fields add_log_fields
          percent_col_def split: option.splits prod.splits)
        (metis snd_conv add_log_fields(2))
  next
    case False
    with assms show ?thesis
      by (auto simp: add_market_cap_def in_place_def zero_col_def store_fields split: prod.splits)
  qed
  show "\<exists>caps pcs. heap s1 = (heap s)(a := set_col COL_PERCENT (map Num pcs)
                                  (set_col COL_MARKET_CAP (map Num caps) (heap s a)))"
  proof (cases "key_ok s")
    case True
    from True assms obtain col tickers caps s2 where
      ap: "apply_market_cap e tickers (add_log Info_market_cap s) = (caps, s2)"
      and ip: "in_place percent_col a
                 (store a (set_col COL_MARKET_CAP (map Num caps) (heap s2 a)) s2) = (True, s1)"
      by (auto simp: add_market_cap_def Let_def split: option.splits prod.splits)
    from apply_market_cap_frame [of e tickers "add_log Info_market_cap s"] ap
    have h2: "heap s2 = heap s" by (simp add: add_log_fields)
    let ?m = "set_col COL_MARKET_CAP (map Num caps) (heap s a)"
    from ip h2 obtain df where pc: "percent_col ?m = Some df" and s1: "heap s1 = (heap s)(a := df)"
      by (auto simp: in_place_def store_fields split: option.splits)
    from pc have "\<exists>pcs. df = set_col COL_PERCENT (map Num pcs) ?m"
      by (auto simp: percent_col_def simp del: map_map split: option.splits)
    with s1 show ?thesis by blast
  next
    case False
    with assms have "heap s1 = (heap s)(a := set_col COL_PERCENT
        (replicate (nrows (set_col COL_MARKET_CAP (replicate (nrows (heap s a)) (Num (Fin 0))) (heap s a))) (Num (Fin 0)))
        (set_col COL_MARKET_CAP (replicate (nrows (heap s a)) (Num (Fin 0))) (heap s a)))"
      by (auto simp: add_market_cap_def in_place_def zero_col_def store_fields split: prod.splits)
    then have "heap s1 = (heap s)(a := set_col COL_PERCENT
        (map Num (replicate (nrows (set_col COL_MARKET_CAP (replicate (nrows (heap s a)) (Num (Fin 0))) (heap s a))) (Fin 0)))
        (set_col COL_MARKET_CAP (map Num (replicate (nrows (heap s a)) (Fin 0))) (heap s a)))"
      by simp
    then show ?thesis by blast
  qed
qed


lemma in_place_step:
  assumes "in_place f a s = (True, s1)"
  shows "\<exists>df. f (heap s a) = Some df \<and> heap s1 = (heap s)(a := df) \<and> next_addr s1 = next_addr s"
  using assms by (auto simp: in_place_def store_def split: option.splits)

lemma conv_text_value:
  assumes "conv_text name clean df = Some df'"
  shows "\<exists>xs. df' = set_col name (map Num xs) df \<and> get_col name df' = Some (map Num xs)"
proof -
  from assms obtain col texts xs where g: "get_col name df = Some col"
    and d: "df' = set_col name (map Num xs) df"
    by (auto simp: conv_text_def split: option.splits)
  from get_col_set_same [OF g] d show ?thesis by blast
qed

lemma process_steps:
  assumes "process_insider_data e (Some a) s = (Some r, s')"
  shows "\<exists>s1 s2 s3 s4 sorted_df.
           in_place (conv_date e) a s = (True, s1) \<and> in_place conv_value a s1 = (True, s2)
         \<and> in_place conv_cost a s2 = (True, s3) \<and> add_market_cap e a s3 = (True, s4)
         \<and> sort_values_desc e COL_VALUE (heap s4 a) = Some sorted_df
         \<and> alloc sorted_df s4 = (r, s')"
  using assms
  by (simp add: process_insider_data_def process_body_def
      split: if_splits prod.splits bool.splits option.splits)

lemma process_success:
  assumes "process_insider_data e (Some a) s = (Some r, s')"
  shows "\<exists>d v c caps pcs ks.
           conv_date e (heap s a) = Some d \<and> conv_value d = Some v \<and> conv_cost v = Some c
         \<and> get_col COL_VALUE (set_col COL_PERCENT (map Num pcs)
               (set_col COL_MARKET_CAP (map Num caps) c)) = Some (map Num ks)
         \<and> list_all (\<lambda>i. i < length ks) (argsort_desc e ks)
         \<and> r = next_addr s
         \<and> heap s' = (heap s)
              (a := set_col COL_PERCENT (map Num pcs) (set_col COL_MARKET_CAP (map Num caps) c),
               next_addr s := take_rows (argsort_desc e ks)
                 (set_col COL_PERCENT (map Num pcs) (set_col COL_MARKET_CAP (map Num caps) c)))"
proof -
  from process_steps [OF assms] obtain s1 s2 s3 s4 sorted_df where
    i1: "in_place (conv_date e) a s = (True, s1)" and i2: "in_place conv_value a s1 = (True, s2)"
    and i3: "in_place conv_cost a s2 = (True, s3)" and i4: "add_market_cap e a s3 = (True, s4)"
    and srt: "sort_values_desc e COL_VALUE (heap s4 a) = Some sorted_df"
    and al: "alloc sorted_df s4 = (r, s')" by blast
  from in_place_step [OF i1] obtain d where d: "conv_date e (heap s a) = Some d"
    "heap s1 = (heap s)(a := d)" "next_addr s1 = next_addr s" by blast
  from in_place_step [OF i2] d obtain v where v: "conv_value d = Some v"
    "heap s2 = (heap s)(a := v)" "next_addr s2 = next_addr s" by auto
  from in_place_step [OF i3] v obtain c where c: "conv_cost v = Some c"
    "heap s3 = (heap s)(a := c)" "next_addr s3 = next_addr s" by auto
  from add_market_cap_ok [OF i4] c obtain caps pcs where m:
    "heap s4 = (heap s)(a := set_col COL_PERCENT (map Num pcs) (set_col COL_MARKET_CAP (map Num caps) c))"
    "next_addr s4 = next_addr s" by auto
  let ?final = "set_col COL_PERCENT (map Num pcs) (set_col COL_MARKET_CAP (map Num caps) c)"
  from v(1) obtain xs where xs: "get_col COL_VALUE v = Some (map Num xs)"
    unfolding conv_value_def using conv_text_value by blast
  from c(1) obtain ys where "c = set_col COL_COST (map Num ys) v"
    unfolding conv_cost_def using conv_text_value by blast
  with xs have "get_col COL_VALUE c = Some (map Num xs)" by (simp add: get_col_set_other)
  then have gf: "get_col COL_VALUE ?final = Some (map Num xs)" by (simp add: get_col_set_other)
  from m(1) have h4: "heap s4 a = ?final" by simp
  from srt h4 gf have ok: "list_all (\<lambda>i. i < length xs) (argsort_desc e xs)"
    and sd: "sorted_df = take_rows (argsort_desc e xs) ?final"
    by (auto simp: sort_values_desc_def num_cells_Num split: if_splits)
  from al m sd have "r = next_addr s"
    "heap s' = (heap s)(a := ?final, next_addr s := take_rows (argsort_desc e xs) ?final)"
    by (auto simp: alloc_def)
  with d(1) v(1) c(1) gf ok show ?thesis by blast
qed

lemma conv_date_shape:
  assumes "conv_date e df = Some d"
  shows "\<exists>cells. list_all is_date cells \<and> d = set_col COL_DATE cells df"
proof -
  from assms obtain ds where
    "d = set_col COL_DATE (map (\<lambda>d. case d of None \<Rightarrow> NaT | Some t \<Rightarrow> Date t) ds) df"
    by (auto simp: conv_date_def split: option.splits if_splits)
  moreover have "list_all is_date (map (\<lambda>d. case d of None \<Rightarrow> NaT | Some t \<Rightarrow> Date t) ds)"
    by (simp add: list_all_iff is_date_def split: option.split)
  ultimately show ?thesis by blast
qed

lemma all_num: "list_all is_num (map Num xs)"
  by (simp add: list_all_iff is_num_def)

lemma process_success_typed:
  assumes "process_insider_data e (Some a) s = (Some r, s')" and "a \<noteq> next_addr s"
  shows "typed_col is_date COL_DATE (heap s' a)" "typed_col is_num COL_VALUE (heap s' a)"
    "typed_col is_num COL_COST (heap s' a)" "typed_col is_num COL_MARKET_CAP (heap s' a)"
    "typed_col is_num COL_PERCENT (heap s' a)"
proof -
  from process_success [OF assms(1)] obtain d v c caps pcs where
    d: "conv_date e (heap s a) = Some d" and v: "conv_value d = Some v"
    and c: "conv_cost v = Some c"
    and h: "heap s' a = set_col COL_PERCENT (map Num pcs) (set_col COL_MARKET_CAP (map Num caps) c)"
    using assms(2) by auto
  from conv_date_shape [OF d] obtain cells where
    dd: "list_all is_date cells" "d = set_col COL_DATE cells (heap s a)" by blast
  from v obtain xs where vv: "v = set_col COL_VALUE (map Num xs) d"
    unfolding conv_value_def using conv_text_value by blast
  from c obtain ys where cc: "c = set_col COL_COST (map Num ys) v"
    unfolding conv_cost_def using conv_text_value by blast
  show "typed_col is_date COL_DATE (heap s' a)"
    by (simp add: h cc vv dd typed_col_set_other typed_col_set_same)
  show "typed_col is_num COL_VALUE (heap s' a)"
    by (simp add: h cc vv typed_col_set_other typed_col_set_same all_num)
  show "typed_col is_num COL_COST (heap s' a)"
    by (simp add: h cc typed_col_set_other typed_col_set_same all_num)
  show "typed_col is_num COL_MARKET_CAP (heap s' a)"
    by (simp add: h typed_col_set_other typed_col_set_same all_num)
  show "typed_col is_num COL_PERCENT (heap s' a)"
    by (simp add: h typed_col_set_same all_num)
qed

subsection \<open>Processing works on the caller's DataFrame\<close>

text \<open>
  C10. When \<^verbatim>\<open>process_insider_data\<close> succeeds on the DataFrame at an allocated address
  \<open>a\<close>, the object at \<open>a\<close> itself has afterwards a date-typed \<^verbatim>\<open>Date\<close> column and
  float-typed \<^verbatim>\<open>Value ($)\<close>, \<^verbatim>\<open>Cost\<close>, \<^verbatim>\<open>Market Cap\<close> and \<^verbatim>\<open>Trade % of Market Cap\<close>
  columns, and the result is another, new object holding rows of the object at \<open>a\<close>.
  When processing fails partway, the object may be left partially converted: for the
  table with the value \<^verbatim>\<open>n/a\<close>, the call returns \<^verbatim>\<open>None\<close> and leaves the caller's
  DataFrame with its dates converted and its value and cost columns still text.
\<close>

theorem process_mutates_callers_dataframe:
  assumes run: "process_insider_data e (Some a) s = (Some r, s')" and a: "a < next_addr s"
  shows "r = next_addr s \<and> r \<noteq> a
       \<and> typed_col is_date COL_DATE (heap s' a)
       \<and> typed_col is_num COL_VALUE (heap s' a)
       \<and> typed_col is_num COL_COST (heap s' a)
       \<and> typed_col is_num COL_MARKET_CAP (heap s' a)
       \<and> typed_col is_num COL_PERCENT (heap s' a)
       \<and> (\<exists>idx. heap s' r = take_rows idx (heap s' a))
       \<and> get_col COL_DATE (heap (holding (table_frame broken_table)) 0) = Some [Str ''2024-01-02'']
       \<and> fst (process_insider_data env_site (Some 0) (holding (table_frame broken_table))) = None
       \<and> get_col COL_DATE
            (heap (snd (process_insider_data env_site (Some 0) (holding (table_frame broken_table)))) 0)
           = Some [Date 1704153600000000]
       \<and> get_col COL_VALUE
            (heap (snd (process_insider_data env_site (Some 0) (holding (table_frame broken_table)))) 0)
           = Some [Str ''n/a'']
       \<and> get_col COL_COST
            (heap (snd (process_insider_data env_site (Some 0) (holding (table_frame broken_table)))) 0)
           = Some [Str ''$10.50'']"
proof -
  from a have ne: "a \<noteq> next_addr s" by simp
  from process_success [OF run] ne have r: "r = next_addr s"
    and t: "\<exists>idx. heap s' r = take_rows idx (heap s' a)" by auto
  have partial:
    "get_col COL_DATE (heap (holding (table_frame broken_table)) 0) = Some [Str ''2024-01-02'']"
    "fst (process_insider_data env_site (Some 0) (holding (table_frame broken_table))) = None"
    "get_col COL_DATE
       (heap (snd (process_insider_data env_site (Some 0) (holding (table_frame broken_table)))) 0)
      = Some [Date 1704153600000000]"
    "get_col COL_VALUE
       (heap (snd (process_insider_data env_site (Some 0) (holding (table_frame broken_table)))) 0)
      = Some [Str ''n/a'']"
    "get_col COL_COST
       (heap (snd (process_insider_data env_site (Some 0) (holding (table_frame broken_table)))) 0)
      = Some [Str ''$10.50'']"
    by code_simp+
  from r ne t process_success_typed [OF run ne] partial show ?thesis by blast
qed

theorem process_mutates_callers_dataframe_witness:
  "0 < next_addr (holding (table_frame demo_table))
   \<and> fst (process_insider_data env_site (Some 0) (holding (table_frame demo_table))) = Some 1
   \<and> get_col COL_VALUE (heap (holding (table_frame demo_table)) 0)
       = Some [Str ''2,500'', Str ''1,000,000'', Str ''5,000'']
   \<and> get_col COL_VALUE
        (heap (snd (process_insider_data env_site (Some 0) (holding (table_frame demo_table)))) 0)
       = Some [Num (Fin 2500), Num (Fin 1000000), Num (Fin 5000)]
   \<and> typed_col is_date COL_DATE
        (heap (snd (process_insider_data env_site (Some 0) (holding (table_frame demo_table)))) 0)
   \<and> typed_col is_num COL_PERCENT
        (heap (snd (process_insider_data env_site (Some 0) (holding (table_frame demo_table)))) 0)"
proof -
  let ?s = "holding (table_frame demo_table)"
  let ?run = "process_insider_data env_site (Some 0) ?s"
  have a: "0 < next_addr ?s" by code_simp
  have f: "fst ?run = Some 1" by code_simp
  then have run: "?run = (Some 1, snd ?run)" by (metis prod.collapse)
  have v: "get_col COL_VALUE (heap ?s 0) = Some [Str ''2,500'', Str ''1,000,000'', Str ''5,000'']"
    "get_col COL_VALUE (heap (snd ?run) 0) = Some [Num (Fin 2500), Num (Fin 1000000), Num (Fin 5000)]"
    by code_simp+
  from a f v process_mutates_callers_dataframe [OF run a] show ?thesis by blast
qed

subsection \<open>The cache and the queries\<close>










lemma in_place_next: "next_addr (snd (in_place f a s)) = next_addr s"
  by (simp add: in_place_def store_def split: option.split)

lemma process_success_next:
  assumes "process_insider_data e (Some a) s = (Some r, s')"
  shows "next_addr s' = Suc (next_addr s)"
proof -
  from process_steps [OF assms] obtain s1 s2 s3 s4 sorted_df where
    i1: "in_place (conv_date e) a s = (True, s1)" and i2: "in_place conv_value a s1 = (True, s2)"
    and i3: "in_place conv_cost a s2 = (True, s3)" and i4: "add_market_cap e a s3 = (True, s4)"
    and al: "alloc sorted_df s4 = (r, s')" by blast
  from in_place_next [of "conv_date e" a s] i1 have "next_addr s1 = next_addr s" by simp
  moreover from in_place_next [of conv_value a s1] i2 have "next_addr s2 = next_addr s1" by simp
  moreover from in_place_next [of conv_cost a s2] i3 have "next_addr s3 = next_addr s2" by simp
  moreover from add_market_cap_ok(1) [OF i4] have "next_addr s4 = next_addr s3" .
  moreover from al have "next_addr s' = Suc (next_addr s4)" by (auto simp: alloc_def)
  ultimately show ?thesis by simp
qed

lemma cache_hit_Some:
  "cache_hit e s = Some c \<longleftrightarrow>
     cached_data s = Some c \<and> (\<exists>t. last_fetch_time s = Some t \<and> now_check e - t < 300000000)"
  by (auto simp: cache_hit_def cache_duration_def split: option.splits)


lemma fetch_body_steps:
  assumes "fetch_body e s0 = (Some r, s')"
  shows "\<exists>doc t s1 a s2 c s3.
           response e = Page doc \<and> find_table doc s0 = (Some t, s1)
         \<and> alloc (table_frame t) s1 = (a, s2) \<and> \<not> df_empty (heap s2 a)
         \<and> process_insider_data e (Some a) s2 = (Some c, s3)
         \<and> copy_df c (add_log (Info_success (nrows (heap s3 a)))
               (s3\<lparr>cached_data := Some c, last_fetch_time := Some (now_store e)\<rparr>)) = (r, s')"
  using assms
  by (simp add: fetch_body_def Let_def
      split: http_result.splits prod.splits option.splits if_splits)

lemma fetch_returns_fresh_copy:
  assumes run: "fetch_insider_data e u s = (Some r, s')"
    and wf: "\<forall>c. cached_data s = Some c \<longrightarrow> c < next_addr s"
  shows "\<exists>c. cached_data s' = Some c \<and> c \<noteq> r \<and> heap s' r = heap s' c"
proof (cases "if u then cache_hit e s else None")
  case (Some c)
  then have hit: "cache_hit e s = Some c" by (simp split: if_splits)
  then have c: "cached_data s = Some c" by (simp add: cache_hit_Some)
  with wf have lt: "c < next_addr s" by simp
  from run Some have "r = next_addr s" "cached_data s' = cached_data s"
    "heap s' = (heap s)(next_addr s := heap s c)"
    by (auto simp: fetch_insider_data_def copy_df_def alloc_def add_log_def)
  with c lt show ?thesis by auto
next
  case None
  with run have "fetch_network e s = (Some r, s')" by (simp add: fetch_insider_data_def)
  then have body: "fetch_body e (add_log Info_fetching s) = (Some r, s')"
    by (auto simp: fetch_network_def split: prod.splits option.splits)
  let ?s0 = "add_log Info_fetching s"
  from fetch_body_steps [OF body] obtain a s2 c s3 where
    pr: "process_insider_data e (Some a) s2 = (Some c, s3)"
    and cp: "copy_df c (add_log (Info_success (nrows (heap s3 a)))
               (s3\<lparr>cached_data := Some c, last_fetch_time := Some (now_store e)\<rparr>)) = (r, s')"
    by blast
  from process_success_next [OF pr] process_success [OF pr]
  have n3: "next_addr s3 = Suc (next_addr s2)" and c2: "c = next_addr s2" by auto
  from cp n3 c2 have "r = Suc c" "cached_data s' = Some c" "heap s' = (heap s3)(Suc c := heap s3 c)"
    by (auto simp: copy_df_def alloc_def add_log_def)
  then show ?thesis by auto
qed




subsection \<open>Objects handed to the caller\<close>

text \<open>
  C7 (the code departs from the claim). \<^verbatim>\<open>fetch_insider_data\<close> returns a copy that is a
  new object (lemma \<open>fetch_returns_fresh_copy\<close>), and a query that applies a test
  returns the new object \<^verbatim>\<open>df[test]\<close> builds. \<^verbatim>\<open>filter_trades\<close> with no key it knows
  applies no test and returns \<^verbatim>\<open>self._cached_data\<close> itself: when the caller then empties
  the DataFrame it was given, the cached dataset is empty and the next query finds no data.
\<close>

theorem filter_without_criteria_returns_cached_object:
  "cached_data after_fetch = Some 1
   \<and> fst (filter_trades env_late no_filters after_fetch) = Returned (Some 1)
   \<and> cached_data (snd (filter_trades env_late no_filters after_fetch)) = Some 1
   \<and> fst (get_trades_by_type env_late (One ''Buy'')
            (snd (filter_trades env_late no_filters after_fetch))) = Returned (Some 3)
   \<and> fst (get_trades_by_type env_late (One ''Buy'')
            (store 1 [] (snd (filter_trades env_late no_filters after_fetch)))) = Returned None"
  by code_simp

end
